theory Spec2Isabelle
  imports Main "HOL-Library.Sublist" "HOL-Library.AList"
begin

section \<open>Python values\<close>

text \<open>
  The analyzer handles JSON payloads of two external providers as duck-typed Python
  values. Only the shapes the code inspects are distinguished: \<open>None\<close>, booleans,
  integers, strings, lists, dictionaries (association lists, looked up with
  \<open>map_of\<close>) and any other object (\<open>PObject\<close>: truthy, neither a list nor a
  dictionary, without a \<open>get\<close> method).
\<close>

datatype pyval =
    PNone
  | PBool bool
  | PInt int
  | PStr string
  | PList "pyval list"
  | PDict "(string \<times> pyval) list"
  | PObject

type_synonym pydict = "(string \<times> pyval) list"

text \<open>Python truthiness, as used by \<open>if x:\<close> and \<open>if not x:\<close>.\<close>

fun truthy :: "pyval \<Rightarrow> bool" where
  "truthy PNone = False"
| "truthy (PBool b) = b"
| "truthy (PInt i) = (i \<noteq> 0)"
| "truthy (PStr s) = (s \<noteq> [])"
| "truthy (PList xs) = (xs \<noteq> [])"
| "truthy (PDict d) = (d \<noteq> [])"
| "truthy PObject = True"

text \<open>\<open>d.get(k)\<close>: the value, or \<open>None\<close> when the key is absent.\<close>

definition dict_get :: "pydict \<Rightarrow> string \<Rightarrow> pyval" where
  "dict_get d k = (case map_of d k of None \<Rightarrow> PNone | Some v \<Rightarrow> v)"

text \<open>\<open>k in d\<close>.\<close>

definition dict_has :: "pydict \<Rightarrow> string \<Rightarrow> bool" where
  "dict_has d k = (map_of d k \<noteq> None)"

section \<open>URL parsing (urllib.parse)\<close>

text \<open>
  \<open>clean_url\<close> calls \<open>urlparse\<close> and \<open>urlunparse\<close> of the Python standard library.
  They are modelled after CPython's \<open>urllib/parse.py\<close>: leading C0 control characters
  and spaces are stripped, tab, line feed and carriage return are removed, the scheme is
  split at the first colon when everything before it is a scheme character, the network
  location runs from \<open>//\<close> to the next \<open>/\<close>, \<open>?\<close> or \<open>#\<close>, then the fragment, the query
  and (for the schemes that use them) the parameters of the last path segment are split
  off. A network location with an unmatched square bracket raises \<open>ValueError\<close>.

  The library validates two more kinds of network location and raises \<open>ValueError\<close>
  when the validation fails: one with both square brackets (the bracketed host has to be
  an IPv6 or IPvFuture address, \<open>_check_bracketed_host\<close>) and one with a non-ASCII
  character (its NFKC normal form must not bring in any of \<open>/?#@:\<close>, \<open>_checknetloc\<close>).
  These validations depend on the address parser and on the Unicode tables; they are
  taken as given, as the parameter \<open>rejects_host\<close>, which is consulted for exactly
  these network locations. Strings are byte strings here, so a non-ASCII character is a
  byte of value 128 or more; every character the parser itself inspects is ASCII.
\<close>

datatype py_error = ValueError

definition ascii_letters :: string where
  "ascii_letters = ''abcdefghijklmnopqrstuvwxyzABCDEFGHIJKLMNOPQRSTUVWXYZ''"

definition scheme_chars :: string where
  "scheme_chars = ascii_letters @ ''0123456789+-.''"

definition ascii_lower :: "char \<Rightarrow> char" where
  "ascii_lower c =
     (if c \<in> set ''ABCDEFGHIJKLMNOPQRSTUVWXYZ'' then char_of (of_char c + (32::nat)) else c)"

definition uses_params :: "string list" where
  "uses_params = ['''', ''ftp'', ''hdl'', ''prospero'', ''http'', ''imap'', ''https'',
     ''shttp'', ''rtsp'', ''rtspu'', ''sip'', ''sips'', ''mms'', ''sftp'', ''tel'']"

definition uses_netloc :: "string list" where
  "uses_netloc = ['''', ''ftp'', ''http'', ''gopher'', ''nntp'', ''telnet'', ''imap'',
     ''wais'', ''file'', ''mms'', ''https'', ''shttp'', ''snews'', ''prospero'', ''rtsp'',
     ''rtspu'', ''rsync'', ''svn'', ''svn+ssh'', ''sftp'', ''nfs'', ''git'', ''git+ssh'',
     ''ws'', ''wss'', ''itms-services'']"

text \<open>\<open>s.split(c, 1)\<close> for a string that contains \<open>c\<close>: the text before the first
  \<open>c\<close> and the text after it.\<close>

definition split_first :: "char \<Rightarrow> string \<Rightarrow> string \<times> string" where
  "split_first c s = (takeWhile (\<lambda>x. x \<noteq> c) s, drop 1 (dropWhile (\<lambda>x. x \<noteq> c) s))"

text \<open>\<open>_splitnetloc(url, 2)\<close>.\<close>

definition splitnetloc :: "string \<Rightarrow> string \<times> string" where
  "splitnetloc url =
     (let rest = drop 2 url
      in (takeWhile (\<lambda>c. c \<notin> set ''/?#'') rest, dropWhile (\<lambda>c. c \<notin> set ''/?#'') rest))"

text \<open>\<open>_splitparams(url)\<close>: the parameters follow the first \<open>;\<close> of the last path
  segment.\<close>

definition splitparams :: "string \<Rightarrow> string \<times> string" where
  "splitparams url =
     (let last_seg = rev (takeWhile (\<lambda>c. c \<noteq> CHR ''/'') (rev url));
          before = take (length url - length last_seg) url
      in if CHR '';'' \<in> set last_seg
         then (before @ fst (split_first CHR '';'' last_seg), snd (split_first CHR '';'' last_seg))
         else (url, ''''))"

definition urlsplit ::
  "(string \<Rightarrow> bool) \<Rightarrow> string \<Rightarrow> py_error + (string \<times> string \<times> string \<times> string \<times> string)" where
  "urlsplit rejects_host url0 =
     (let url1 = filter (\<lambda>c. of_char c \<notin> {9::nat, 10, 13})
                   (dropWhile (\<lambda>c. of_char c \<le> (32::nat)) url0);
          before_colon = takeWhile (\<lambda>c. c \<noteq> CHR '':'') url1;
          has_scheme = (CHR '':'' \<in> set url1 \<and> before_colon \<noteq> []
                        \<and> hd url1 \<in> set ascii_letters
                        \<and> list_all (\<lambda>c. c \<in> set scheme_chars) before_colon);
          scheme = (if has_scheme then map ascii_lower before_colon else '''');
          url2 = (if has_scheme then drop (Suc (length before_colon)) url1 else url1);
          has_netloc = (take 2 url2 = ''//'');
          netloc = (if has_netloc then fst (splitnetloc url2) else '''');
          url3 = (if has_netloc then snd (splitnetloc url2) else url2)
      in if has_netloc \<and>
            ((CHR ''['' \<in> set netloc \<and> CHR '']'' \<notin> set netloc) \<or>
             (CHR '']'' \<in> set netloc \<and> CHR ''['' \<notin> set netloc))
         then Inl ValueError
         else if has_netloc \<and>
                 ((CHR ''['' \<in> set netloc \<and> CHR '']'' \<in> set netloc) \<or>
                  \<not> list_all (\<lambda>c. of_char c < (128::nat)) netloc) \<and>
                 rejects_host netloc
         then Inl ValueError
         else
           (let fragment = (if CHR ''#'' \<in> set url3 then snd (split_first CHR ''#'' url3) else '''');
                url4 = (if CHR ''#'' \<in> set url3 then fst (split_first CHR ''#'' url3) else url3);
                query = (if CHR ''?'' \<in> set url4 then snd (split_first CHR ''?'' url4) else '''');
                url5 = (if CHR ''?'' \<in> set url4 then fst (split_first CHR ''?'' url4) else url4)
            in Inr (scheme, netloc, url5, query, fragment)))"

definition urlunsplit :: "string \<Rightarrow> string \<Rightarrow> string \<Rightarrow> string \<Rightarrow> string \<Rightarrow> string" where
  "urlunsplit scheme netloc url query fragment =
     (let url1 = (if netloc \<noteq> [] \<or> (scheme \<noteq> [] \<and> scheme \<in> set uses_netloc \<and> take 2 url \<noteq> ''//'')
                  then ''//'' @ netloc @ (if url \<noteq> [] \<and> take 1 url \<noteq> ''/'' then ''/'' @ url else url)
                  else url);
          url2 = (if scheme \<noteq> [] then scheme @ '':'' @ url1 else url1);
          url3 = (if query \<noteq> [] then url2 @ ''?'' @ query else url2)
      in if fragment \<noteq> [] then url3 @ ''#'' @ fragment else url3)"

record ParseResult =
  scheme :: string
  netloc :: string
  path :: string
  params :: string
  query :: string
  fragment :: string

definition urlparse :: "(string \<Rightarrow> bool) \<Rightarrow> string \<Rightarrow> py_error + ParseResult" where
  "urlparse rejects_host url =
     (case urlsplit rejects_host url of
        Inl e \<Rightarrow> Inl e
      | Inr (sch, nl, u, q, frag) \<Rightarrow>
          (if sch \<in> set uses_params \<and> CHR '';'' \<in> set u
           then Inr \<lparr>scheme = sch, netloc = nl, path = fst (splitparams u),
                     params = snd (splitparams u), query = q, fragment = frag\<rparr>
           else Inr \<lparr>scheme = sch, netloc = nl, path = u,
                     params = '''', query = q, fragment = frag\<rparr>))"

definition urlunparse :: "ParseResult \<Rightarrow> string" where
  "urlunparse p =
     urlunsplit (scheme p) (netloc p)
       (if params p \<noteq> [] then path p @ '';'' @ params p else path p)
       (query p) (fragment p)"

section \<open>Configuration (main_analyzer.py, lines 19-43)\<close>

definition TARGET_SITE :: string where
  "TARGET_SITE = ''fatshackvintage.com.au''"

definition TARGET_SITE_URL_BASE :: string where
  "TARGET_SITE_URL_BASE = ''https://www.'' @ TARGET_SITE @ ''/''"

definition KNOWN_PLP_PATHS :: "string list" where
  "KNOWN_PLP_PATHS =
     [''https://www.'' @ TARGET_SITE @ ''/shop-by-category/'',
      ''https://www.'' @ TARGET_SITE @ ''/shop-all-products/'',
      ''https://www.'' @ TARGET_SITE @ ''/shop-all/'',
      ''https://www.'' @ TARGET_SITE @ ''/collections'']"

definition KNOWN_PDP_PATHS :: "string list" where
  "KNOWN_PDP_PATHS = [''https://www.'' @ TARGET_SITE @ ''/products/'']"

definition KNOWN_IRRELEVANT_PATHS :: "string list" where
  "KNOWN_IRRELEVANT_PATHS =
     [''https://www.'' @ TARGET_SITE @ ''/articles/'',
      ''https://www.'' @ TARGET_SITE @ ''/help/'',
      ''https://www.'' @ TARGET_SITE @ ''/about-us/'',
      ''https://www.'' @ TARGET_SITE @ ''/contact-us/'',
      ''https://www.'' @ TARGET_SITE @ ''/'']"

section \<open>URL normalisation and classification (main_analyzer.py, lines 93-143)\<close>

text \<open>
  \<open>clean_url\<close> returns \<open>None\<close> for a value that is not a string and when parsing raises;
  otherwise the URL rebuilt from the scheme (default \<open>https\<close>), the host (default the
  target site) and the path (a bare \<open>/\<close> becomes the empty path), without parameters,
  query and fragment. The first argument of \<open>clean_url\<close>, \<open>classify_url\<close> and the
  classification loop is the library's host validation \<open>rejects_host\<close>; the pipeline
  passes \<open>urllib_rejects_host\<close> of its world.
\<close>

fun clean_url :: "(string \<Rightarrow> bool) \<Rightarrow> pyval \<Rightarrow> string option" where
  "clean_url rejects_host (PStr url) =
     (case urlparse rejects_host url of
        Inl e \<Rightarrow> None
      | Inr parsed \<Rightarrow>
          (let scheme' = (if scheme parsed \<noteq> [] then scheme parsed else ''https'');
               netloc' = (if netloc parsed \<noteq> [] then netloc parsed else TARGET_SITE);
               path' = (if prefix ''/'' (path parsed) then path parsed else ''/'' @ path parsed);
               path'' = (if path' = ''/'' then '''' else path')
           in Some (urlunparse (parsed\<lparr>scheme := scheme', netloc := netloc', path := path'',
                                        params := '''', query := '''', fragment := ''''\<rparr>))))"
| "clean_url rejects_host _ = None"

text \<open>The four classifications are the strings \<open>'Known PLP'\<close>, \<open>'Known PDP'\<close>,
  \<open>'Irrelevant'\<close> and \<open>'Unknown'\<close> of the source.\<close>

datatype page_type = Known_PLP | Known_PDP | Irrelevant | Unknown

definition classify_url :: "(string \<Rightarrow> bool) \<Rightarrow> pyval \<Rightarrow> string list \<Rightarrow> page_type" where
  "classify_url rejects_host url known_plps_from_csv =
     (case clean_url rejects_host url of
        None \<Rightarrow> Unknown
      | Some cleaned_url \<Rightarrow>
          if cleaned_url = [] then Unknown
          else if list_ex (\<lambda>p. prefix p cleaned_url) KNOWN_IRRELEVANT_PATHS \<and>
                  (cleaned_url = ''https://www.'' @ TARGET_SITE @ ''/'' \<or>
                   list_ex (\<lambda>p. prefix p cleaned_url \<and> length cleaned_url > length p)
                     (filter (\<lambda>p. p \<noteq> ''https://www.'' @ TARGET_SITE @ ''/'') KNOWN_IRRELEVANT_PATHS) \<or>
                   list_ex (\<lambda>p. cleaned_url = p) KNOWN_IRRELEVANT_PATHS)
          then Irrelevant
          else if cleaned_url \<in> set known_plps_from_csv then Known_PLP
          else if list_ex (\<lambda>p. prefix p cleaned_url) KNOWN_PLP_PATHS \<and>
                  \<not> (sublist ''/collections/'' cleaned_url \<and> sublist ''/products/'' cleaned_url)
          then Known_PLP
          else if list_ex (\<lambda>p. prefix p cleaned_url) KNOWN_PDP_PATHS \<or>
                  sublist ''/products/'' cleaned_url
          then Known_PDP
          else Unknown)"

section \<open>External providers\<close>

text \<open>
  The search provider (SerpApi, over \<open>requests\<close>) and the relevance provider
  (Firecrawl) are outside the program, and so is the URL library's validation of
  bracketed and non-ASCII hosts (\<open>urllib_rejects_host\<close>). Each is a function of the calls made so far and
  of the arguments of the present call, so that a provider may answer the same request
  differently at different times. \<open>calls\<close> lists the adapter operations invoked, in
  order. The blocking waits (\<open>time.sleep\<close>) and the log messages are left out.
\<close>

datatype call =
    Get_Organic_Results string string
  | Assess_Category string string
  | Assess_Product string string
  | Classify_And_Assess string string

text \<open>What \<open>requests.get\<close>, \<open>raise_for_status\<close> and the decoding of the body do:
  raise a \<open>RequestException\<close> (transport failure or HTTP error status), raise anything
  else, or yield the raw-HTML reference and the organic results, each result reduced
  to the values of its \<open>link\<close> and \<open>snippet\<close> keys (\<open>PNone\<close> when absent).\<close>

datatype serp_outcome =
    Request_Exception
  | Other_Exception
  | Serp_Json pyval "(pyval \<times> pyval) list"

text \<open>The three prompts, each with the keyword and the URL it interpolates.\<close>

datatype prompt =
    Category_Prompt string string
  | Product_Prompt string string
  | Combined_Prompt string string

datatype extract_outcome = Extract_Raises | Extract_Returns pyval

record world =
  SERPAPI_API_KEY :: "string option"
  FIRECRAWL_API_KEY :: "string option"
  urllib_rejects_host :: "string \<Rightarrow> bool"
  serpapi_search :: "call list \<Rightarrow> string \<Rightarrow> string \<Rightarrow> serp_outcome"
  firecrawl_extract :: "call list \<Rightarrow> string \<Rightarrow> prompt \<Rightarrow> extract_outcome"

text \<open>\<open>if not KEY\<close>: the key is unset or empty.\<close>

definition key_missing :: "string option \<Rightarrow> bool" where
  "key_missing k = (k = None \<or> k = Some [])"

section \<open>Adapters (functions.py)\<close>

text \<open>\<open>_call_firecrawl_extract\<close> (lines 19-59): \<open>PNone\<close> stands for the returned
  \<open>None\<close>. Reading \<open>.get\<close> of a response entry that is not a dictionary raises
  inside the \<open>try\<close> and so returns \<open>None\<close> as well.\<close>

definition call_firecrawl_extract :: "world \<Rightarrow> call list \<Rightarrow> string \<Rightarrow> prompt \<Rightarrow> pyval" where
  "call_firecrawl_extract w h url p =
     (if key_missing (FIRECRAWL_API_KEY w) then PNone
      else case firecrawl_extract w h url p of
          Extract_Raises \<Rightarrow> PNone
        | Extract_Returns response \<Rightarrow>
            (let response_data =
                   (case response of
                      PList (x # xs) \<Rightarrow> x
                    | PDict d \<Rightarrow> (if d \<noteq> [] then response else PNone)
                    | _ \<Rightarrow> PNone)
             in if truthy response_data
                then (case response_data of
                        PDict rd \<Rightarrow>
                          (if truthy (dict_get rd ''error'') then PNone
                           else if truthy (dict_get rd ''data'') then dict_get rd ''data''
                           else PNone)
                      | _ \<Rightarrow> PNone)
                else PNone))"

text \<open>A row of the results table: position, ranking URL, snippet.\<close>

type_synonym serp_row = "nat \<times> pyval \<times> pyval"

text \<open>The list comprehension of lines 96-100: entries with a falsy link are dropped,
  positions count all entries from 1.\<close>

fun ranking_data :: "nat \<Rightarrow> (pyval \<times> pyval) list \<Rightarrow> serp_row list" where
  "ranking_data index [] = []"
| "ranking_data index ((link, snippet) # rest) =
     (if truthy link then (index + 1, link, snippet) # ranking_data (index + 1) rest
      else ranking_data (index + 1) rest)"

text \<open>The column \<open>serp_df['Ranking URL']\<close>.\<close>

definition ranking_urls :: "serp_row list \<Rightarrow> pyval list" where
  "ranking_urls df = map (\<lambda>(position, url, snippet). url) df"

text \<open>\<open>get_organic_results\<close> (lines 62-110) returns a pair on success and a triple
  on each failure path.\<close>

datatype fetch_return =
    Pair pyval "serp_row list"
  | Triple pyval "serp_row list" pyval

definition get_organic_results :: "world \<Rightarrow> call list \<Rightarrow> string \<Rightarrow> string \<Rightarrow> fetch_return" where
  "get_organic_results w h keyword site_path =
     (if key_missing (SERPAPI_API_KEY w) then Triple PNone [] PNone
      else case serpapi_search w h keyword site_path of
          Serp_Json raw_html_file search_results \<Rightarrow>
            Pair raw_html_file (ranking_data 0 search_results)
        | Request_Exception \<Rightarrow> Triple PNone [] PNone
        | Other_Exception \<Rightarrow> Triple PNone [] PNone)"

text \<open>\<open>assess_category_page_relevance\<close> (lines 113-145).\<close>

definition assess_category_page_relevance :: "world \<Rightarrow> call list \<Rightarrow> string \<Rightarrow> string \<Rightarrow> pydict option" where
  "assess_category_page_relevance w h keyword url =
     (case call_firecrawl_extract w h url (Category_Prompt keyword url) of
        PDict result \<Rightarrow>
          (if result \<noteq> [] \<and> dict_has result ''Relevant'' \<and> dict_has result ''Analysis''
           then Some result else None)
      | _ \<Rightarrow> None)"

text \<open>\<open>assess_product_page_relevance\<close> (lines 148-174).\<close>

definition assess_product_page_relevance :: "world \<Rightarrow> call list \<Rightarrow> string \<Rightarrow> string \<Rightarrow> pydict option" where
  "assess_product_page_relevance w h keyword url =
     (case call_firecrawl_extract w h url (Product_Prompt keyword url) of
        PDict result \<Rightarrow>
          (if result \<noteq> [] \<and> dict_has result ''Relevance'' \<and> dict_has result ''Analysis''
           then Some result else None)
      | _ \<Rightarrow> None)"

text \<open>\<open>classify_and_assess_url\<close> (lines 177-226).\<close>

definition allowed_types :: "string list" where
  "allowed_types = [''PLP'', ''PDP'', ''Brand Page'', ''Article'', ''Other'']"

definition allowed_relevance :: "string list" where
  "allowed_relevance = [''Closely Related'', ''Loosely Related'', ''Unrelated'', ''Related'', ''N/A'']"

definition classify_and_assess_url :: "world \<Rightarrow> call list \<Rightarrow> string \<Rightarrow> string \<Rightarrow> pydict option" where
  "classify_and_assess_url w h keyword url =
     (case call_firecrawl_extract w h url (Combined_Prompt keyword url) of
        PDict result \<Rightarrow>
          (if result \<noteq> [] \<and> dict_has result ''determined_type'' \<and>
              dict_has result ''relevance'' \<and> dict_has result ''analysis''
           then (if dict_get result ''determined_type'' \<in> set (map PStr allowed_types) \<and>
                    dict_get result ''relevance'' \<in> set (map PStr allowed_relevance)
                 then Some result else None)
           else None)
      | _ \<Rightarrow> None)"

section \<open>The decision pipeline (main_analyzer.py, lines 145-320)\<close>

text \<open>The per-keyword result dictionary. \<open>Initial_Classification\<close> is the empty
  dictionary until the classification stage stores the four buckets in it, in the order
  of the keys \<open>'Known PLP'\<close>, \<open>'Known PDP'\<close>, \<open>'Irrelevant'\<close>, \<open>'Unknown'\<close>.\<close>

record keyword_result =
  Keyword :: string
  SERP_Results_Found :: bool
  Initial_Classification :: "(page_type \<times> string list) list"
  Known_PLP_Assessment :: "(string \<times> pydict) list"
  Known_PDP_Assessment :: "(string \<times> pydict) list"
  Unknown_URL_Assessment :: "(string \<times> pydict) list"
  Decision :: string
  Justification :: string
  SERP_Raw_HTML_URL :: pyval

text \<open>The local variables of the assessment stages (lines 194-199 and 232-233),
  together with the calls made so far. A dictionary from URL to assessment is an
  association list; \<open>d[url] = v\<close> is \<open>AList.update url v d\<close>.\<close>

record evidence =
  known_plp_assessments :: "(string \<times> pydict) list"
  known_pdp_assessments :: "(string \<times> pydict) list"
  unknown_url_assessments :: "(string \<times> pydict) list"
  found_closely_related_plp :: bool
  best_plp_relevance :: "string option"
  found_related_pdp :: bool
  ai_identified_plps :: "(string \<times> pydict) list"
  ai_identified_pdps :: "(string \<times> pydict) list"
  calls :: "call list"

text \<open>Lines 194-199 and 232-233: nothing assessed yet.\<close>

definition initial_evidence :: "call list \<Rightarrow> evidence" where
  "initial_evidence h =
     \<lparr>known_plp_assessments = [], known_pdp_assessments = [],
      unknown_url_assessments = [], found_closely_related_plp = False,
      best_plp_relevance = None, found_related_pdp = False,
      ai_identified_plps = [], ai_identified_pdps = [], calls = h\<rparr>"

subsection \<open>Stage 2: initial classification (lines 182-188)\<close>

text \<open>Line 182: the four empty buckets.\<close>

definition empty_buckets :: "page_type \<Rightarrow> string list" where
  "empty_buckets = (\<lambda>t. [])"

definition all_buckets :: "(page_type \<Rightarrow> string list) \<Rightarrow> string list" where
  "all_buckets cu = concat (map cu [Known_PLP, Known_PDP, Irrelevant, Unknown])"

fun initial_classification ::
  "(string \<Rightarrow> bool) \<Rightarrow> pyval list \<Rightarrow> string list \<Rightarrow> (page_type \<Rightarrow> string list)
     \<Rightarrow> (page_type \<Rightarrow> string list)" where
  "initial_classification rejects_host [] known_plps_list cu = cu"
| "initial_classification rejects_host (url # urls) known_plps_list cu =
     (case clean_url rejects_host url of
        None \<Rightarrow> initial_classification rejects_host urls known_plps_list cu
      | Some cleaned \<Rightarrow>
          if cleaned = [] then initial_classification rejects_host urls known_plps_list cu
          else (let pt = classify_url rejects_host (PStr cleaned) known_plps_list
                in if cleaned \<notin> set (all_buckets cu)
                   then initial_classification rejects_host urls known_plps_list (cu(pt := cu pt @ [cleaned]))
                   else initial_classification rejects_host urls known_plps_list cu))"

subsection \<open>Stage 3: known listing pages (lines 204-221)\<close>

text \<open>One iteration of the loop; the second component tells whether it ended in
  \<open>break\<close>. The adapters return \<open>None\<close> or a dictionary that passed their
  \<open>if result and ...\<close> test, so \<open>if result:\<close> is the case distinction on the
  option.\<close>

definition known_plp_step :: "world \<Rightarrow> string \<Rightarrow> string \<Rightarrow> evidence \<Rightarrow> evidence \<times> bool" where
  "known_plp_step w keyword url e =
     (let result = assess_category_page_relevance w (calls e) keyword url;
          e1 = e\<lparr>calls := calls e @ [Assess_Category keyword url]\<rparr>
      in case result of
           Some r \<Rightarrow>
             (let e2 = e1\<lparr>known_plp_assessments := AList.update url r (known_plp_assessments e1)\<rparr>;
                  relevance = dict_get r ''Relevant''
              in if relevance = PStr ''Closely Related''
                 then (e2\<lparr>found_closely_related_plp := True,
                           best_plp_relevance := Some ''Closely Related''\<rparr>, True)
                 else if relevance = PStr ''Loosely Related''
                 then (e2\<lparr>best_plp_relevance := Some ''Loosely Related''\<rparr>, False)
                 else if best_plp_relevance e2 = None
                 then (e2\<lparr>best_plp_relevance := Some ''Unrelated''\<rparr>, False)
                 else (e2, False))
         | None \<Rightarrow>
             (let e2 = e1\<lparr>known_plp_assessments :=
                           AList.update url [(''Relevant'', PStr ''Assessment Failed''),
                                             (''Analysis'', PStr ''API call failed.'')]
                             (known_plp_assessments e1)\<rparr>
              in if best_plp_relevance e2 = None
                 then (e2\<lparr>best_plp_relevance := Some ''Unrelated''\<rparr>, False)
                 else (e2, False)))"

fun assess_known_plps :: "world \<Rightarrow> string \<Rightarrow> string list \<Rightarrow> evidence \<Rightarrow> evidence" where
  "assess_known_plps w keyword [] e = e"
| "assess_known_plps w keyword (url # urls) e =
     (case known_plp_step w keyword url e of
        (e', stop) \<Rightarrow> if stop then e' else assess_known_plps w keyword urls e')"

subsection \<open>Stage 4: unknown URLs (lines 237-267)\<close>

definition unknown_url_step :: "world \<Rightarrow> string \<Rightarrow> string \<Rightarrow> evidence \<Rightarrow> evidence \<times> bool" where
  "unknown_url_step w keyword url e =
     (let result = classify_and_assess_url w (calls e) keyword url;
          e1 = e\<lparr>calls := calls e @ [Classify_And_Assess keyword url]\<rparr>
      in case result of
           Some r \<Rightarrow>
             (let e2 = e1\<lparr>unknown_url_assessments := AList.update url r (unknown_url_assessments e1)\<rparr>;
                  determined_type = dict_get r ''determined_type'';
                  relevance = dict_get r ''relevance''
              in if determined_type = PStr ''PLP'' \<or> determined_type = PStr ''Brand Page''
                 then (let e3 = e2\<lparr>ai_identified_plps := AList.update url r (ai_identified_plps e2)\<rparr>
                       in if relevance = PStr ''Closely Related''
                          then (e3\<lparr>best_plp_relevance := Some ''Closely Related'',
                                    found_closely_related_plp := True\<rparr>, True)
                          else if relevance = PStr ''Loosely Related'' \<and>
                                  best_plp_relevance e3 \<noteq> Some ''Closely Related''
                          then (e3\<lparr>best_plp_relevance := Some ''Loosely Related''\<rparr>, False)
                          else if relevance = PStr ''Unrelated'' \<and> best_plp_relevance e3 = None
                          then (e3\<lparr>best_plp_relevance := Some ''Unrelated''\<rparr>, False)
                          else (e3, False))
                 else if determined_type = PStr ''PDP''
                 then (let e3 = e2\<lparr>ai_identified_pdps := AList.update url r (ai_identified_pdps e2)\<rparr>
                       in if relevance = PStr ''Related''
                          then (e3\<lparr>found_related_pdp := True\<rparr>, False)
                          else (e3, False))
                 else (e2, False))
         | None \<Rightarrow>
             (e1\<lparr>unknown_url_assessments :=
                   AList.update url [(''determined_type'', PStr ''Error''),
                                     (''relevance'', PStr ''Error''),
                                     (''analysis'', PStr ''API call failed.'')]
                     (unknown_url_assessments e1)\<rparr>, False))"

fun assess_unknown_urls :: "world \<Rightarrow> string \<Rightarrow> string list \<Rightarrow> evidence \<Rightarrow> evidence" where
  "assess_unknown_urls w keyword [] e = e"
| "assess_unknown_urls w keyword (url # urls) e =
     (case unknown_url_step w keyword url e of
        (e', stop) \<Rightarrow> if stop then e' else assess_unknown_urls w keyword urls e')"

subsection \<open>Stage 5: known detail pages (lines 281-290)\<close>

definition known_pdp_step :: "world \<Rightarrow> string \<Rightarrow> string \<Rightarrow> evidence \<Rightarrow> evidence" where
  "known_pdp_step w keyword url e =
     (let result = assess_product_page_relevance w (calls e) keyword url;
          e1 = e\<lparr>calls := calls e @ [Assess_Product keyword url]\<rparr>
      in case result of
           Some r \<Rightarrow>
             (let e2 = e1\<lparr>known_pdp_assessments := AList.update url r (known_pdp_assessments e1)\<rparr>
              in if dict_get r ''Relevance'' = PStr ''Related''
                 then e2\<lparr>found_related_pdp := True\<rparr>
                 else e2)
         | None \<Rightarrow>
             e1\<lparr>known_pdp_assessments :=
                  AList.update url [(''Relevance'', PStr ''Assessment Failed''),
                                    (''Analysis'', PStr ''API call failed.'')]
                    (known_pdp_assessments e1)\<rparr>)"

fun assess_known_pdps :: "world \<Rightarrow> string \<Rightarrow> string list \<Rightarrow> evidence \<Rightarrow> evidence" where
  "assess_known_pdps w keyword [] e = e"
| "assess_known_pdps w keyword (url # urls) e =
     assess_known_pdps w keyword urls (known_pdp_step w keyword url e)"

subsection \<open>Stage 6: final decision (lines 295-312)\<close>

definition final_decision :: "string option \<Rightarrow> bool \<Rightarrow> string \<times> string" where
  "final_decision best found_pdp =
     (if best = Some ''Loosely Related''
      then (if found_pdp
            then (''Yes (Create *specific* category)'',
                  ''Found 'Loosely Related' PLP and 'Related' products/pages, suggesting a more specific category is needed.'')
            else (''No (Loose PLP is best for now)'',
                  ''Found 'Loosely Related' PLP, but no specific 'Related' products/pages found to justify a new category.''))
      else if best = Some ''Unrelated'' \<or> best = None
      then (if found_pdp
            then (''Yes (Create *new* category)'',
                  ''No relevant PLP found, but 'Related' products/pages exist, justifying a new category.'')
            else (''No (No relevant products/pages)'',
                  ''No relevant PLPs or other pages related to the keyword were found.''))
      else (''Error'', ''Unhandled case in final decision logic.''))"

subsection \<open>One keyword (the loop body, lines 150-317)\<close>

text \<open>
  \<open>run_stages\<close> is the loop body up to line 291. It raises (the fetch returned a
  triple, which the two-name unpacking of line 166 rejects with \<open>ValueError\<close>), or ends
  the keyword early with the result to append, or reaches the final decision logic
  with the result dictionary and the evidence gathered.
\<close>

datatype stage_result =
    Raised py_error
  | Decided keyword_result "call list"
  | Synthesizing keyword_result evidence

definition run_stages :: "world \<Rightarrow> string list \<Rightarrow> string \<Rightarrow> call list \<Rightarrow> stage_result" where
  "run_stages w known_plps_list keyword h =
     (let kr0 = \<lparr>Keyword = keyword, SERP_Results_Found = False,
                  Initial_Classification = [], Known_PLP_Assessment = [],
                  Known_PDP_Assessment = [], Unknown_URL_Assessment = [],
                  Decision = ''Error'', Justification = ''Processing failed.'',
                  SERP_Raw_HTML_URL = PNone\<rparr>;
          h1 = h @ [Get_Organic_Results keyword TARGET_SITE]
      in case get_organic_results w h keyword TARGET_SITE of
           Triple a b c \<Rightarrow> Raised ValueError
         | Pair serp_html_url serp_df \<Rightarrow>
             if serp_df = []
             then Decided (kr0\<lparr>Decision := ''No (Irrelevant)'',
                                Justification := ''No organic results found for this keyword on the target site.'',
                                SERP_Raw_HTML_URL := serp_html_url\<rparr>) h1
             else
               (let kr1 = kr0\<lparr>SERP_Results_Found := True, SERP_Raw_HTML_URL := serp_html_url\<rparr>;
                    classified_urls = initial_classification (urllib_rejects_host w)
                        (ranking_urls serp_df) known_plps_list empty_buckets;
                    kr2 = kr1\<lparr>Initial_Classification :=
                            map (\<lambda>t. (t, classified_urls t)) [Known_PLP, Known_PDP, Irrelevant, Unknown]\<rparr>;
                    e0 = initial_evidence h1;
                    e3 = (if classified_urls Known_PLP \<noteq> []
                          then assess_known_plps w keyword (classified_urls Known_PLP) e0 else e0);
                    kr3 = (if classified_urls Known_PLP \<noteq> []
                           then kr2\<lparr>Known_PLP_Assessment := known_plp_assessments e3\<rparr> else kr2)
                in if classified_urls Known_PLP \<noteq> [] \<and> found_closely_related_plp e3
                   then Decided (kr3\<lparr>Decision := ''No (Existing page sufficient)'',
                                      Justification := ''A 'Closely Related' Known PLP was found in SERP.''\<rparr>)
                          (calls e3)
                   else
                     (let e4 = (if classified_urls Unknown \<noteq> []
                                then assess_unknown_urls w keyword (classified_urls Unknown) e3 else e3);
                          kr4 = (if classified_urls Unknown \<noteq> []
                                 then kr3\<lparr>Unknown_URL_Assessment := unknown_url_assessments e4\<rparr> else kr3)
                      in if classified_urls Unknown \<noteq> [] \<and> found_closely_related_plp e4
                         then Decided (kr4\<lparr>Decision := ''No (Existing page sufficient)'',
                                            Justification := ''AI identified a 'Closely Related' PLP or Brand Page in SERP.''\<rparr>)
                                (calls e4)
                         else
                           (let e5 = (if classified_urls Known_PDP \<noteq> []
                                      then assess_known_pdps w keyword (classified_urls Known_PDP) e4 else e4);
                                kr5 = (if classified_urls Known_PDP \<noteq> []
                                       then kr4\<lparr>Known_PDP_Assessment := known_pdp_assessments e5\<rparr> else kr4)
                            in Synthesizing kr5 e5))))"

text \<open>The whole loop body: the result is appended to \<open>results_list\<close>, and the calls
  made are carried along.\<close>

definition process_keyword ::
  "world \<Rightarrow> string list \<Rightarrow> string \<Rightarrow> keyword_result list \<times> call list
     \<Rightarrow> py_error + keyword_result list \<times> call list" where
  "process_keyword w known_plps_list keyword st =
     (case st of (results_list, h) \<Rightarrow>
        (case run_stages w known_plps_list keyword h of
           Raised err \<Rightarrow> Inl err
         | Decided kr h' \<Rightarrow> Inr (results_list @ [kr], h')
         | Synthesizing kr e \<Rightarrow>
             Inr (results_list @
                    [kr\<lparr>Decision := fst (final_decision (best_plp_relevance e) (found_related_pdp e)),
                        Justification := snd (final_decision (best_plp_relevance e) (found_related_pdp e))\<rparr>],
                  calls e)))"

subsection \<open>All keywords (lines 145-320)\<close>

fun keyword_loop ::
  "world \<Rightarrow> string list \<Rightarrow> string list \<Rightarrow> keyword_result list \<times> call list
     \<Rightarrow> py_error + keyword_result list \<times> call list" where
  "keyword_loop w known_plps_list [] st = Inr st"
| "keyword_loop w known_plps_list (keyword # keywords) st =
     (case process_keyword w known_plps_list keyword st of
        Inl err \<Rightarrow> Inl err
      | Inr st' \<Rightarrow> keyword_loop w known_plps_list keywords st')"

text \<open>\<open>analyze_keywords\<close> returns the table of results, or the exception that left
  the loop; the calls made are returned beside the table.\<close>

definition analyze_keywords ::
  "world \<Rightarrow> string list \<Rightarrow> string list \<Rightarrow> py_error + keyword_result list \<times> call list" where
  "analyze_keywords w keywords known_plps_list = keyword_loop w known_plps_list keywords ([], [])"

section \<open>Example provider behaviours\<close>

text \<open>Concrete worlds on which the pipeline is run in the closed theorems below. Every
  host in them is plain ASCII without brackets, so the library's host validation is
  never consulted; it is set to reject nothing.\<close>

definition no_host_rejected :: "string \<Rightarrow> bool" where
  "no_host_rejected = (\<lambda>host. False)"

text \<open>The search returns only the homepage; the relevance provider calls every page a
  closely related listing page.\<close>

definition homepage_world :: world where
  "homepage_world =
     \<lparr>SERPAPI_API_KEY = Some ''key'', FIRECRAWL_API_KEY = Some ''key'',
      urllib_rejects_host = no_host_rejected,
      serpapi_search = (\<lambda>h keyword site.
         Serp_Json PNone [(PStr ''https://www.fatshackvintage.com.au/'', PStr ''Home'')]),
      firecrawl_extract = (\<lambda>h url p.
         Extract_Returns (PDict [(''data'', PDict [(''determined_type'', PStr ''PLP''),
            (''relevance'', PStr ''Closely Related''), (''analysis'', PStr ''All products'')])]))\<rparr>"

text \<open>Every request to the search provider fails in transport.\<close>

definition search_down_world :: world where
  "search_down_world =
     \<lparr>SERPAPI_API_KEY = Some ''key'', FIRECRAWL_API_KEY = Some ''key'',
      urllib_rejects_host = no_host_rejected,
      serpapi_search = (\<lambda>h keyword site. Request_Exception),
      firecrawl_extract = (\<lambda>h url p. Extract_Raises)\<rparr>"

text \<open>A small catalogue. The search results depend on the keyword: "hair powder"
  (the scenario of the specification) has a known listing page and a known detail page,
  "beard oil" only the listing page, "pomade" only the detail page, "gift cards" only a
  page of unknown type; the search for "retro lamps" fails in transport, and any other
  keyword has no results. The relevance provider finds every listing page loosely
  related and every detail page related, and fails on the combined assessment.\<close>

definition catalogue_world :: world where
  "catalogue_world =
     \<lparr>SERPAPI_API_KEY = Some ''key'', FIRECRAWL_API_KEY = Some ''key'',
      urllib_rejects_host = no_host_rejected,
      serpapi_search = (\<lambda>h keyword site.
         if keyword = ''hair powder''
         then Serp_Json (PStr ''https://serpapi.com/raw.html'')
           [(PStr ''https://www.fatshackvintage.com.au/shop-all-products/'', PNone),
            (PStr ''https://www.fatshackvintage.com.au/products/hair-styling-powder/'', PNone)]
         else if keyword = ''beard oil''
         then Serp_Json PNone [(PStr ''https://www.fatshackvintage.com.au/shop-all-products/'', PNone)]
         else if keyword = ''pomade''
         then Serp_Json PNone
           [(PStr ''https://www.fatshackvintage.com.au/products/hair-styling-powder/'', PNone)]
         else if keyword = ''gift cards''
         then Serp_Json PNone [(PStr ''https://www.fatshackvintage.com.au/lookbook'', PNone)]
         else if keyword = ''retro lamps'' then Request_Exception
         else Serp_Json PNone []),
      firecrawl_extract = (\<lambda>h url p.
         case p of
           Category_Prompt k u \<Rightarrow> Extract_Returns (PList [PDict [(''data'',
               PDict [(''Relevant'', PStr ''Loosely Related''), (''Analysis'', PStr ''broad'')])]])
         | Product_Prompt k u \<Rightarrow> Extract_Returns (PList [PDict [(''data'',
               PDict [(''Relevance'', PStr ''Related''), (''Analysis'', PStr ''match'')])]])
         | Combined_Prompt k u \<Rightarrow> Extract_Raises)\<rparr>"

text \<open>The relevance provider answers the request for the lookbook with a detail page
  typed \<open>PDP\<close> whose relevance is on the listing scale, and every other request with
  a listing page whose relevance is on neither scale.\<close>

definition cross_scale_world :: world where
  "cross_scale_world =
     \<lparr>SERPAPI_API_KEY = Some ''key'', FIRECRAWL_API_KEY = Some ''key'',
      urllib_rejects_host = no_host_rejected,
      serpapi_search = (\<lambda>h keyword site.
         Serp_Json PNone [(PStr ''https://www.fatshackvintage.com.au/lookbook'', PNone)]),
      firecrawl_extract = (\<lambda>h url p.
         if url = ''https://www.fatshackvintage.com.au/lookbook''
         then Extract_Returns (PDict [(''data'', PDict [(''determined_type'', PStr ''PDP''),
            (''relevance'', PStr ''Closely Related''), (''analysis'', PStr ''A single hat'')])])
         else Extract_Returns (PDict [(''data'', PDict [(''determined_type'', PStr ''PLP''),
            (''relevance'', PStr ''Very''), (''analysis'', PStr ''Many hats'')])]))\<rparr>"

text \<open>Five search results, three of them known listing pages; the relevance provider
  finds the page of hats closely related and every other page loosely related.\<close>

definition hats_world :: world where
  "hats_world =
     \<lparr>SERPAPI_API_KEY = Some ''key'', FIRECRAWL_API_KEY = Some ''key'',
      urllib_rejects_host = no_host_rejected,
      serpapi_search = (\<lambda>h keyword site.
         Serp_Json PNone
           [(PStr ''https://www.fatshackvintage.com.au/collections/bags'', PNone),
            (PStr ''https://www.fatshackvintage.com.au/collections/hats'', PNone),
            (PStr ''https://www.fatshackvintage.com.au/collections/caps'', PNone),
            (PStr ''https://www.fatshackvintage.com.au/lookbook'', PNone),
            (PStr ''https://www.fatshackvintage.com.au/products/red-hat'', PNone)]),
      firecrawl_extract = (\<lambda>h url p.
         if url = ''https://www.fatshackvintage.com.au/collections/hats''
         then Extract_Returns (PDict [(''data'',
               PDict [(''Relevant'', PStr ''Closely Related''), (''Analysis'', PStr ''hats only'')])])
         else Extract_Returns (PDict [(''data'',
               PDict [(''Relevant'', PStr ''Loosely Related''), (''Analysis'', PStr ''mixed'')])]))\<rparr>"


section \<open>Properties of the analyzer\<close>

subsection \<open>Fetch failure\<close>

text \<open>
  Claim C1. When the search provider fails with a transport or HTTP error, the fetch
  returns no raw-artifact reference and an empty table, but as a triple; the loop body
  unpacks two values, so the \<open>ValueError\<close> leaves \<open>analyze_keywords\<close>: no result is
  produced for the keyword and the keywords after it are not processed.
\<close>

theorem C1_search_failure_raises:
  "get_organic_results search_down_world [] ''vintage hats'' TARGET_SITE = Triple PNone [] PNone \<and>
   analyze_keywords search_down_world [''vintage hats'', ''retro lamps''] [] = Inl ValueError"
  by code_simp

subsection \<open>The homepage\<close>

text \<open>
  Claim C3. The homepage URL \<open>https://www.fatshackvintage.com.au/\<close> is normalised to
  \<open>https://www.fatshackvintage.com.au\<close>, without the final slash, which no irrelevant
  path is a prefix of: it is classified Unknown, not Irrelevant (whatever the library's
  host validation, which this host does not reach), and is sent to the relevance
  provider. With a provider that calls it a closely related listing page,
  the decision for a keyword whose only search result is the homepage is
  \<open>No (Existing page sufficient)\<close>.
\<close>

theorem C3_homepage_not_irrelevant:
  "clean_url rejects_host (PStr TARGET_SITE_URL_BASE) = Some ''https://www.fatshackvintage.com.au'' \<and>
   classify_url rejects_host (PStr TARGET_SITE_URL_BASE) [] = Unknown \<and>
   (case analyze_keywords homepage_world [''contact lenses''] [] of
      Inr (rs, h) \<Rightarrow> (map Decision rs, h)
    | Inl err \<Rightarrow> ([], [])) =
     ([''No (Existing page sufficient)''],
      [Get_Organic_Results ''contact lenses'' ''fatshackvintage.com.au'',
       Classify_And_Assess ''contact lenses'' ''https://www.fatshackvintage.com.au''])"
  by code_simp

subsection \<open>The final decision\<close>

text \<open>
  Claim C6. The final decision is a function of the pair of the best listing relevance
  and the related-detail flag: loosely related with a related detail page gives
  \<open>Yes (Create *specific* category)\<close>, loosely related without one
  \<open>No (Loose PLP is best for now)\<close>, unrelated or absent with one
  \<open>Yes (Create *new* category)\<close>, unrelated or absent without one
  \<open>No (No relevant products/pages)\<close>, and closely related (like any other value)
  gives \<open>Error\<close>. Whenever the final decision logic is reached, the result appended
  for the keyword carries the decision this function gives for the evidence gathered.
\<close>

theorem C6_final_decision_table:
  "fst (final_decision (Some ''Loosely Related'') True) = ''Yes (Create *specific* category)'' \<and>
   fst (final_decision (Some ''Loosely Related'') False) = ''No (Loose PLP is best for now)'' \<and>
   fst (final_decision (Some ''Unrelated'') True) = ''Yes (Create *new* category)'' \<and>
   fst (final_decision None True) = ''Yes (Create *new* category)'' \<and>
   fst (final_decision (Some ''Unrelated'') False) = ''No (No relevant products/pages)'' \<and>
   fst (final_decision None False) = ''No (No relevant products/pages)'' \<and>
   fst (final_decision (Some ''Closely Related'') found_pdp) = ''Error'' \<and>
   (best \<noteq> Some ''Loosely Related'' \<and> best \<noteq> Some ''Unrelated'' \<and> best \<noteq> None \<longrightarrow>
      fst (final_decision best found_pdp) = ''Error'') \<and>
   (run_stages w known_plps_list keyword h = Synthesizing kr e \<longrightarrow>
      (\<exists>r. process_keyword w known_plps_list keyword (results_list, h) = Inr (results_list @ [r], calls e) \<and>
           Decision r = fst (final_decision (best_plp_relevance e) (found_related_pdp e))))"
  by (simp add: process_keyword_def final_decision_def)

theorem C6_final_decision_table_witness:
  "(\<exists>kr e r. run_stages catalogue_world [] ''hair powder'' [] = Synthesizing kr e \<and>
      best_plp_relevance e = Some ''Loosely Related'' \<and> found_related_pdp e \<and>
      process_keyword catalogue_world [] ''hair powder'' ([], []) = Inr ([r], calls e) \<and>
      Decision r = ''Yes (Create *specific* category)'') \<and>
   (\<exists>kr e r. run_stages catalogue_world [] ''beard oil'' [] = Synthesizing kr e \<and>
      best_plp_relevance e = Some ''Loosely Related'' \<and> \<not> found_related_pdp e \<and>
      process_keyword catalogue_world [] ''beard oil'' ([], []) = Inr ([r], calls e) \<and>
      Decision r = ''No (Loose PLP is best for now)'') \<and>
   (\<exists>kr e r. run_stages catalogue_world [] ''pomade'' [] = Synthesizing kr e \<and>
      best_plp_relevance e = None \<and> found_related_pdp e \<and>
      process_keyword catalogue_world [] ''pomade'' ([], []) = Inr ([r], calls e) \<and>
      Decision r = ''Yes (Create *new* category)'') \<and>
   (\<exists>kr e r. run_stages catalogue_world [] ''gift cards'' [] = Synthesizing kr e \<and>
      best_plp_relevance e = None \<and> \<not> found_related_pdp e \<and>
      process_keyword catalogue_world [] ''gift cards'' ([], []) = Inr ([r], calls e) \<and>
      Decision r = ''No (No relevant products/pages)'') \<and>
   fst (final_decision (Some ''Closely Related'') True) = ''Error''"
proof -
  have r1: "(\<exists>kr e r. run_stages catalogue_world [] ''hair powder'' [] = Synthesizing kr e \<and>
      best_plp_relevance e = Some ''Loosely Related'' \<and> found_related_pdp e \<and>
      process_keyword catalogue_world [] ''hair powder'' ([], []) = Inr ([r], calls e) \<and>
      Decision r = ''Yes (Create *specific* category)'')"
  proof -
    have "case run_stages catalogue_world [] ''hair powder'' [] of
            Synthesizing kr e \<Rightarrow> best_plp_relevance e = Some ''Loosely Related'' \<and> found_related_pdp e
          | _ \<Rightarrow> False"
      by code_simp
    then obtain kr e where run: "run_stages catalogue_world [] ''hair powder'' [] = Synthesizing kr e"
      and ev: "best_plp_relevance e = Some ''Loosely Related''" "found_related_pdp e"
      by (auto split: stage_result.splits)
    from C6_final_decision_table [where w = catalogue_world and known_plps_list = "[]"
        and keyword = "''hair powder''" and h = "[]" and kr = kr and e = e and results_list = "[]"] run
    obtain r where "process_keyword catalogue_world [] ''hair powder'' ([], []) = Inr ([r], calls e)"
      and "Decision r = fst (final_decision (best_plp_relevance e) (found_related_pdp e))"
      by auto
    then show ?thesis using run ev C6_final_decision_table [where found_pdp = True]
      by (intro exI [of _ kr] exI [of _ e] exI [of _ r]) simp
  qed
  have r2: "(\<exists>kr e r. run_stages catalogue_world [] ''beard oil'' [] = Synthesizing kr e \<and>
      best_plp_relevance e = Some ''Loosely Related'' \<and> \<not> found_related_pdp e \<and>
      process_keyword catalogue_world [] ''beard oil'' ([], []) = Inr ([r], calls e) \<and>
      Decision r = ''No (Loose PLP is best for now)'')"
  proof -
    have "case run_stages catalogue_world [] ''beard oil'' [] of
            Synthesizing kr e \<Rightarrow> best_plp_relevance e = Some ''Loosely Related'' \<and> \<not> found_related_pdp e
          | _ \<Rightarrow> False"
      by code_simp
    then obtain kr e where run: "run_stages catalogue_world [] ''beard oil'' [] = Synthesizing kr e"
      and ev: "best_plp_relevance e = Some ''Loosely Related''" "\<not> found_related_pdp e"
      by (auto split: stage_result.splits)
    from C6_final_decision_table [where w = catalogue_world and known_plps_list = "[]"
        and keyword = "''beard oil''" and h = "[]" and kr = kr and e = e and results_list = "[]"] run
    obtain r where "process_keyword catalogue_world [] ''beard oil'' ([], []) = Inr ([r], calls e)"
      and "Decision r = fst (final_decision (best_plp_relevance e) (found_related_pdp e))"
      by auto
    then show ?thesis using run ev C6_final_decision_table [where found_pdp = True]
      by (intro exI [of _ kr] exI [of _ e] exI [of _ r]) simp
  qed
  have r3: "(\<exists>kr e r. run_stages catalogue_world [] ''pomade'' [] = Synthesizing kr e \<and>
      best_plp_relevance e = None \<and> found_related_pdp e \<and>
      process_keyword catalogue_world [] ''pomade'' ([], []) = Inr ([r], calls e) \<and>
      Decision r = ''Yes (Create *new* category)'')"
  proof -
    have "case run_stages catalogue_world [] ''pomade'' [] of
            Synthesizing kr e \<Rightarrow> best_plp_relevance e = None \<and> found_related_pdp e
          | _ \<Rightarrow> False"
      by code_simp
    then obtain kr e where run: "run_stages catalogue_world [] ''pomade'' [] = Synthesizing kr e"
      and ev: "best_plp_relevance e = None" "found_related_pdp e"
      by (auto split: stage_result.splits)
    from C6_final_decision_table [where w = catalogue_world and known_plps_list = "[]"
        and keyword = "''pomade''" and h = "[]" and kr = kr and e = e and results_list = "[]"] run
    obtain r where "process_keyword catalogue_world [] ''pomade'' ([], []) = Inr ([r], calls e)"
      and "Decision r = fst (final_decision (best_plp_relevance e) (found_related_pdp e))"
      by auto
    then show ?thesis using run ev C6_final_decision_table [where found_pdp = True]
      by (intro exI [of _ kr] exI [of _ e] exI [of _ r]) simp
  qed
  have r4: "(\<exists>kr e r. run_stages catalogue_world [] ''gift cards'' [] = Synthesizing kr e \<and>
      best_plp_relevance e = None \<and> \<not> found_related_pdp e \<and>
      process_keyword catalogue_world [] ''gift cards'' ([], []) = Inr ([r], calls e) \<and>
      Decision r = ''No (No relevant products/pages)'')"
  proof -
    have "case run_stages catalogue_world [] ''gift cards'' [] of
            Synthesizing kr e \<Rightarrow> best_plp_relevance e = None \<and> \<not> found_related_pdp e
          | _ \<Rightarrow> False"
      by code_simp
    then obtain kr e where run: "run_stages catalogue_world [] ''gift cards'' [] = Synthesizing kr e"
      and ev: "best_plp_relevance e = None" "\<not> found_related_pdp e"
      by (auto split: stage_result.splits)
    from C6_final_decision_table [where w = catalogue_world and known_plps_list = "[]"
        and keyword = "''gift cards''" and h = "[]" and kr = kr and e = e and results_list = "[]"] run
    obtain r where "process_keyword catalogue_world [] ''gift cards'' ([], []) = Inr ([r], calls e)"
      and "Decision r = fst (final_decision (best_plp_relevance e) (found_related_pdp e))"
      by auto
    then show ?thesis using run ev C6_final_decision_table [where found_pdp = True]
      by (intro exI [of _ kr] exI [of _ e] exI [of _ r]) simp
  qed
  have r5: "fst (final_decision (Some ''Closely Related'') True) = ''Error''"
    using C6_final_decision_table [where found_pdp = True] by blast
  show ?thesis by (intro conjI r1 r2 r3 r4 r5)
qed

subsection \<open>The closely-related flag\<close>

lemma known_plp_step_head:
  "\<not> found_closely_related_plp e \<Longrightarrow> best_plp_relevance e \<noteq> Some ''Closely Related'' \<Longrightarrow>
   (if snd (known_plp_step w keyword url e)
    then found_closely_related_plp (fst (known_plp_step w keyword url e)) \<and>
         best_plp_relevance (fst (known_plp_step w keyword url e)) = Some ''Closely Related''
    else \<not> found_closely_related_plp (fst (known_plp_step w keyword url e)) \<and>
         best_plp_relevance (fst (known_plp_step w keyword url e)) \<noteq> Some ''Closely Related'')"
  by (auto simp add: known_plp_step_def Let_def split: option.splits)

lemma known_plp_step_stop:
  "snd (known_plp_step w keyword url e) \<Longrightarrow> found_closely_related_plp (fst (known_plp_step w keyword url e))"
  by (auto simp add: known_plp_step_def Let_def split: option.splits if_splits)

lemma known_plp_step_continue:
  "\<not> snd (known_plp_step w keyword url e) \<Longrightarrow>
   found_closely_related_plp (fst (known_plp_step w keyword url e)) = found_closely_related_plp e"
  by (auto simp add: known_plp_step_def Let_def split: option.splits if_splits)

lemma unknown_url_step_flag:
  "found_closely_related_plp e = (best_plp_relevance e = Some ''Closely Related'') \<Longrightarrow>
   found_closely_related_plp (fst (unknown_url_step w keyword url e)) =
     (best_plp_relevance (fst (unknown_url_step w keyword url e)) = Some ''Closely Related'')"
  by (auto simp add: unknown_url_step_def Let_def split: option.splits)

lemma known_pdp_step_listing:
  "found_closely_related_plp (known_pdp_step w keyword url e) = found_closely_related_plp e \<and>
   best_plp_relevance (known_pdp_step w keyword url e) = best_plp_relevance e"
  by (auto simp add: known_pdp_step_def Let_def split: option.splits)

lemma assess_known_plps_flag:
  "\<not> found_closely_related_plp e \<Longrightarrow> best_plp_relevance e \<noteq> Some ''Closely Related'' \<Longrightarrow>
   found_closely_related_plp (assess_known_plps w keyword urls e) =
     (best_plp_relevance (assess_known_plps w keyword urls e) = Some ''Closely Related'')"
proof (induction urls arbitrary: e)
  case Nil
  then show ?case by simp
next
  case (Cons url urls)
  obtain e' stop where st: "known_plp_step w keyword url e = (e', stop)"
    by (cases "known_plp_step w keyword url e")
  show ?case
  proof (cases stop)
    case True
    then show ?thesis using known_plp_step_head [OF Cons.prems, of w keyword url] st by simp
  next
    case False
    then have "\<not> found_closely_related_plp e'" "best_plp_relevance e' \<noteq> Some ''Closely Related''"
      using known_plp_step_head [OF Cons.prems, of w keyword url] st by simp_all
    then show ?thesis using st False Cons.IH [of e'] by simp
  qed
qed

lemma assess_unknown_urls_flag:
  "found_closely_related_plp e = (best_plp_relevance e = Some ''Closely Related'') \<Longrightarrow>
   found_closely_related_plp (assess_unknown_urls w keyword urls e) =
     (best_plp_relevance (assess_unknown_urls w keyword urls e) = Some ''Closely Related'')"
proof (induction urls arbitrary: e)
  case Nil
  then show ?case by simp
next
  case (Cons url urls)
  obtain e' stop where st: "unknown_url_step w keyword url e = (e', stop)" by (cases "unknown_url_step w keyword url e")
  have "found_closely_related_plp e' = (best_plp_relevance e' = Some ''Closely Related'')"
    using unknown_url_step_flag [OF Cons.prems, of w keyword url] st by simp
  then show ?case using st Cons.IH [of e'] by simp
qed

lemma assess_known_pdps_listing:
  "found_closely_related_plp (assess_known_pdps w keyword urls e) = found_closely_related_plp e \<and>
   best_plp_relevance (assess_known_pdps w keyword urls e) = best_plp_relevance e"
  by (induction urls arbitrary: e) (simp_all add: known_pdp_step_listing)

text \<open>
  Claim C7. At every point of a keyword's run, the flag \<open>found_closely_related_plp\<close>
  is true if and only if \<open>best_plp_relevance\<close> is \<open>'Closely Related'\<close>. The points
  of the run are the states of the known-listing loop after any number of its URLs,
  started from the initial evidence, and the states of the unknown-URL loop after any
  number of its URLs, started from the evidence the known-listing loop left when it
  found no closely related page (otherwise the unknown-URL loop is not run). Both loops
  are taken on arbitrary URL lists, hence on every prefix of a bucket.
\<close>

theorem C7_closely_flag_invariant:
  "found_closely_related_plp (assess_known_plps w keyword plps (initial_evidence h)) =
     (best_plp_relevance (assess_known_plps w keyword plps (initial_evidence h)) = Some ''Closely Related'') \<and>
   (\<not> found_closely_related_plp (assess_known_plps w keyword plps (initial_evidence h)) \<longrightarrow>
      found_closely_related_plp
        (assess_unknown_urls w keyword unknowns (assess_known_plps w keyword plps (initial_evidence h))) =
      (best_plp_relevance
        (assess_unknown_urls w keyword unknowns (assess_known_plps w keyword plps (initial_evidence h))) =
       Some ''Closely Related''))"
proof -
  have init: "\<not> found_closely_related_plp (initial_evidence h)"
    "best_plp_relevance (initial_evidence h) \<noteq> Some ''Closely Related''"
    by (simp_all add: initial_evidence_def)
  have a: "found_closely_related_plp (assess_known_plps w keyword plps (initial_evidence h)) =
     (best_plp_relevance (assess_known_plps w keyword plps (initial_evidence h)) = Some ''Closely Related'')"
    by (rule assess_known_plps_flag [OF init])
  show ?thesis using a assess_unknown_urls_flag [OF a, of w keyword unknowns] by simp
qed

theorem C7_closely_flag_invariant_witness:
  "\<not> found_closely_related_plp
       (assess_known_plps homepage_world ''hats'' [''https://www.fatshackvintage.com.au/collections/hats'']
          (initial_evidence [])) \<and>
   found_closely_related_plp
     (assess_unknown_urls homepage_world ''hats'' [''https://www.fatshackvintage.com.au/lookbook'']
        (assess_known_plps homepage_world ''hats'' [''https://www.fatshackvintage.com.au/collections/hats'']
           (initial_evidence []))) \<and>
   best_plp_relevance
     (assess_unknown_urls homepage_world ''hats'' [''https://www.fatshackvintage.com.au/lookbook'']
        (assess_known_plps homepage_world ''hats'' [''https://www.fatshackvintage.com.au/collections/hats'']
           (initial_evidence []))) = Some ''Closely Related''"
proof -
  have a: "\<not> found_closely_related_plp
       (assess_known_plps homepage_world ''hats'' [''https://www.fatshackvintage.com.au/collections/hats'']
          (initial_evidence []))"
    by code_simp
  have b: "found_closely_related_plp
     (assess_unknown_urls homepage_world ''hats'' [''https://www.fatshackvintage.com.au/lookbook'']
        (assess_known_plps homepage_world ''hats'' [''https://www.fatshackvintage.com.au/collections/hats'']
           (initial_evidence [])))"
    by code_simp
  from a b C7_closely_flag_invariant [of homepage_world "''hats''"
      "[''https://www.fatshackvintage.com.au/collections/hats'']" "[]"
      "[''https://www.fatshackvintage.com.au/lookbook'']"]
  show ?thesis by simp
qed

subsection \<open>Validation of the combined assessment\<close>

lemma classify_and_assess_url_Some:
  "classify_and_assess_url w h keyword url = Some r \<longleftrightarrow>
     call_firecrawl_extract w h url (Combined_Prompt keyword url) = PDict r \<and>
     dict_has r ''determined_type'' \<and> dict_has r ''relevance'' \<and> dict_has r ''analysis'' \<and>
     dict_get r ''determined_type'' \<in> set (map PStr allowed_types) \<and>
     dict_get r ''relevance'' \<in> set (map PStr allowed_relevance)"
proof (cases "call_firecrawl_extract w h url (Combined_Prompt keyword url)")
  case (PDict d)
  have "dict_has d ''analysis'' \<Longrightarrow> d \<noteq> []" by (auto simp add: dict_has_def)
  then show ?thesis using PDict by (auto simp add: classify_and_assess_url_def)
qed (simp_all add: classify_and_assess_url_def)

text \<open>
  Claim C10. \<open>classify_and_assess_url\<close> returns a payload exactly when the provider
  returned a dictionary with the three keys whose type is one of the five allowed types
  and whose relevance is one of the five allowed values, each test on its own: the
  relevance is not checked against the type, so a cross-scale payload is returned, and
  a payload with a missing key or a value outside the lists is refused. An accepted
  payload is recorded as the URL's assessment; the evidence update then leaves
  \<open>best_plp_relevance\<close> and the closely-related flag alone for type \<open>PDP\<close>, leaves
  \<open>found_related_pdp\<close> alone for types \<open>PLP\<close> and \<open>Brand Page\<close>, and changes nothing
  for a cross-scale verdict. A refused payload is recorded with the failure marker and
  changes no evidence.
\<close>

theorem C10_cross_scale_accepted_and_ignored:
  "(classify_and_assess_url w (calls e) keyword url = Some r \<longleftrightarrow>
      call_firecrawl_extract w (calls e) url (Combined_Prompt keyword url) = PDict r \<and>
      dict_has r ''determined_type'' \<and> dict_has r ''relevance'' \<and> dict_has r ''analysis'' \<and>
      dict_get r ''determined_type'' \<in> set (map PStr allowed_types) \<and>
      dict_get r ''relevance'' \<in> set (map PStr allowed_relevance)) \<and>
   (classify_and_assess_url w (calls e) keyword url = Some r \<longrightarrow>
      map_of (unknown_url_assessments (fst (unknown_url_step w keyword url e))) url = Some r \<and>
      (dict_get r ''determined_type'' = PStr ''PDP'' \<longrightarrow>
         best_plp_relevance (fst (unknown_url_step w keyword url e)) = best_plp_relevance e \<and>
         found_closely_related_plp (fst (unknown_url_step w keyword url e)) = found_closely_related_plp e) \<and>
      (dict_get r ''determined_type'' = PStr ''PLP'' \<or> dict_get r ''determined_type'' = PStr ''Brand Page'' \<longrightarrow>
         found_related_pdp (fst (unknown_url_step w keyword url e)) = found_related_pdp e) \<and>
      ((dict_get r ''determined_type'' = PStr ''PDP'' \<and> dict_get r ''relevance'' \<noteq> PStr ''Related'') \<or>
       ((dict_get r ''determined_type'' = PStr ''PLP'' \<or> dict_get r ''determined_type'' = PStr ''Brand Page'') \<and>
        (dict_get r ''relevance'' = PStr ''Related'' \<or> dict_get r ''relevance'' = PStr ''N/A'')) \<longrightarrow>
         best_plp_relevance (fst (unknown_url_step w keyword url e)) = best_plp_relevance e \<and>
         found_closely_related_plp (fst (unknown_url_step w keyword url e)) = found_closely_related_plp e \<and>
         found_related_pdp (fst (unknown_url_step w keyword url e)) = found_related_pdp e)) \<and>
   (classify_and_assess_url w (calls e) keyword url = None \<longrightarrow>
      map_of (unknown_url_assessments (fst (unknown_url_step w keyword url e))) url =
        Some [(''determined_type'', PStr ''Error''), (''relevance'', PStr ''Error''),
              (''analysis'', PStr ''API call failed.'')] \<and>
      best_plp_relevance (fst (unknown_url_step w keyword url e)) = best_plp_relevance e \<and>
      found_closely_related_plp (fst (unknown_url_step w keyword url e)) = found_closely_related_plp e \<and>
      found_related_pdp (fst (unknown_url_step w keyword url e)) = found_related_pdp e)"
proof (intro conjI impI)
  show "classify_and_assess_url w (calls e) keyword url = Some r \<longleftrightarrow>
      call_firecrawl_extract w (calls e) url (Combined_Prompt keyword url) = PDict r \<and>
      dict_has r ''determined_type'' \<and> dict_has r ''relevance'' \<and> dict_has r ''analysis'' \<and>
      dict_get r ''determined_type'' \<in> set (map PStr allowed_types) \<and>
      dict_get r ''relevance'' \<in> set (map PStr allowed_relevance)"
    by (rule classify_and_assess_url_Some)
qed (auto simp add: unknown_url_step_def Let_def update_Some_unfold map_of_eq_None_iff)

theorem C10_cross_scale_accepted_and_ignored_witness:
  "classify_and_assess_url cross_scale_world [] ''hats'' ''https://www.fatshackvintage.com.au/lookbook'' =
     Some [(''determined_type'', PStr ''PDP''), (''relevance'', PStr ''Closely Related''),
           (''analysis'', PStr ''A single hat'')] \<and>
   best_plp_relevance (fst (unknown_url_step cross_scale_world ''hats''
      ''https://www.fatshackvintage.com.au/lookbook'' (initial_evidence []))) = None \<and>
   \<not> found_closely_related_plp (fst (unknown_url_step cross_scale_world ''hats''
      ''https://www.fatshackvintage.com.au/lookbook'' (initial_evidence []))) \<and>
   \<not> found_related_pdp (fst (unknown_url_step cross_scale_world ''hats''
      ''https://www.fatshackvintage.com.au/lookbook'' (initial_evidence []))) \<and>
   classify_and_assess_url cross_scale_world [] ''hats'' ''https://www.fatshackvintage.com.au/gallery'' = None \<and>
   map_of (unknown_url_assessments (fst (unknown_url_step cross_scale_world ''hats''
      ''https://www.fatshackvintage.com.au/gallery'' (initial_evidence []))))
      ''https://www.fatshackvintage.com.au/gallery'' =
     Some [(''determined_type'', PStr ''Error''), (''relevance'', PStr ''Error''),
           (''analysis'', PStr ''API call failed.'')]"
proof -
  let ?R = "[(''determined_type'', PStr ''PDP''), (''relevance'', PStr ''Closely Related''),
             (''analysis'', PStr ''A single hat'')]"
  let ?Q = "[(''determined_type'', PStr ''PLP''), (''relevance'', PStr ''Very''),
             (''analysis'', PStr ''Many hats'')]"
  have c: "calls (initial_evidence []) = []" by (simp add: initial_evidence_def)
  have h1: "call_firecrawl_extract cross_scale_world [] ''https://www.fatshackvintage.com.au/lookbook''
      (Combined_Prompt ''hats'' ''https://www.fatshackvintage.com.au/lookbook'') = PDict ?R"
    by code_simp
  have h2: "dict_has ?R ''determined_type'' \<and> dict_has ?R ''relevance'' \<and> dict_has ?R ''analysis'' \<and>
      dict_get ?R ''determined_type'' \<in> set (map PStr allowed_types) \<and>
      dict_get ?R ''relevance'' \<in> set (map PStr allowed_relevance)"
    by code_simp
  have h3: "dict_get ?R ''determined_type'' = PStr ''PDP''" "dict_get ?R ''relevance'' \<noteq> PStr ''Related''"
    by code_simp+
  note T1 = C10_cross_scale_accepted_and_ignored [where w = cross_scale_world and e = "initial_evidence []"
      and keyword = "''hats''" and url = "''https://www.fatshackvintage.com.au/lookbook''" and r = ?R,
      unfolded c]
  have a: "classify_and_assess_url cross_scale_world [] ''hats'' ''https://www.fatshackvintage.com.au/lookbook'' = Some ?R"
    using T1 h1 h2 by blast
  have b: "best_plp_relevance (fst (unknown_url_step cross_scale_world ''hats''
        ''https://www.fatshackvintage.com.au/lookbook'' (initial_evidence []))) = best_plp_relevance (initial_evidence [])"
      "found_closely_related_plp (fst (unknown_url_step cross_scale_world ''hats''
        ''https://www.fatshackvintage.com.au/lookbook'' (initial_evidence []))) = found_closely_related_plp (initial_evidence [])"
      "found_related_pdp (fst (unknown_url_step cross_scale_world ''hats''
        ''https://www.fatshackvintage.com.au/lookbook'' (initial_evidence []))) = found_related_pdp (initial_evidence [])"
    using T1 a h3 by blast+
  have g1: "call_firecrawl_extract cross_scale_world [] ''https://www.fatshackvintage.com.au/gallery''
      (Combined_Prompt ''hats'' ''https://www.fatshackvintage.com.au/gallery'') = PDict ?Q"
    by code_simp
  have g2: "dict_get ?Q ''relevance'' \<notin> set (map PStr allowed_relevance)"
    by code_simp
  have n: "classify_and_assess_url cross_scale_world [] ''hats'' ''https://www.fatshackvintage.com.au/gallery'' = None"
  proof (cases "classify_and_assess_url cross_scale_world [] ''hats'' ''https://www.fatshackvintage.com.au/gallery''")
    case None
    then show ?thesis .
  next
    case (Some q)
    from C10_cross_scale_accepted_and_ignored [where w = cross_scale_world and e = "initial_evidence []"
      and keyword = "''hats''" and url = "''https://www.fatshackvintage.com.au/gallery''" and r = q,
      unfolded c] Some
    have "call_firecrawl_extract cross_scale_world [] ''https://www.fatshackvintage.com.au/gallery''
        (Combined_Prompt ''hats'' ''https://www.fatshackvintage.com.au/gallery'') = PDict q"
      and "dict_get q ''relevance'' \<in> set (map PStr allowed_relevance)"
      by blast+
    with g1 g2 show ?thesis by simp
  qed
  note T2 = C10_cross_scale_accepted_and_ignored [where w = cross_scale_world and e = "initial_evidence []"
      and keyword = "''hats''" and url = "''https://www.fatshackvintage.com.au/gallery''" and r = ?Q,
      unfolded c]
  have m: "map_of (unknown_url_assessments (fst (unknown_url_step cross_scale_world ''hats''
      ''https://www.fatshackvintage.com.au/gallery'' (initial_evidence []))))
      ''https://www.fatshackvintage.com.au/gallery'' =
     Some [(''determined_type'', PStr ''Error''), (''relevance'', PStr ''Error''),
           (''analysis'', PStr ''API call failed.'')]"
    using T2 n by blast
  show ?thesis using a b n m by (simp add: initial_evidence_def)
qed

subsection \<open>The URL classifier\<close>

text \<open>The test of lines 118-127, in the words of the specification: the URL is the site
  root, or it starts with an irrelevant path other than the root and is longer than it,
  or it is one of the irrelevant paths.\<close>

lemma if_same_or: "(if a then x else if b then x else y) = (if a \<or> b then x else y)"
  by simp

lemma irrelevant_test:
  "(list_ex (\<lambda>p. prefix p c) KNOWN_IRRELEVANT_PATHS \<and>
     (c = ''https://www.'' @ TARGET_SITE @ ''/'' \<or>
      list_ex (\<lambda>p. prefix p c \<and> length c > length p)
        (filter (\<lambda>p. p \<noteq> ''https://www.'' @ TARGET_SITE @ ''/'') KNOWN_IRRELEVANT_PATHS) \<or>
      list_ex (\<lambda>p. c = p) KNOWN_IRRELEVANT_PATHS)) =
   (c = TARGET_SITE_URL_BASE \<or>
    (\<exists>p\<in>set KNOWN_IRRELEVANT_PATHS. p \<noteq> TARGET_SITE_URL_BASE \<and> prefix p c \<and> length p < length c) \<or>
    c \<in> set KNOWN_IRRELEVANT_PATHS)"
proof -
  have root: "TARGET_SITE_URL_BASE \<in> set KNOWN_IRRELEVANT_PATHS"
    by (simp add: KNOWN_IRRELEVANT_PATHS_def TARGET_SITE_URL_BASE_def)
  have eq: "''https://www.'' @ TARGET_SITE @ ''/'' = TARGET_SITE_URL_BASE"
    by (simp add: TARGET_SITE_URL_BASE_def)
  show ?thesis
    unfolding eq list_ex_iff using root by auto
qed

text \<open>
  Claim C4. \<open>classify_url\<close> is a total function that decides in the order Irrelevant,
  Known PLP, Known PDP, Unknown, the first match winning. With \<open>c\<close> the normalised
  URL: the result is Irrelevant when \<open>c\<close> passes the irrelevance test; otherwise Known
  PLP when \<open>c\<close> is in the supplied list of known listing pages, or starts with a listing
  path and does not contain both \<open>/collections/\<close> and \<open>/products/\<close>; otherwise Known PDP
  when \<open>c\<close> starts with a detail path or contains \<open>/products/\<close>; otherwise Unknown. A
  URL that cannot be normalised is Unknown.
\<close>

theorem C4_classifier_precedence:
  "(clean_url rejects_host url = None \<or> clean_url rejects_host url = Some [] \<longrightarrow>
      classify_url rejects_host url known_plps_from_csv = Unknown) \<and>
   (\<forall>c. clean_url rejects_host url = Some c \<and> c \<noteq> [] \<longrightarrow>
      classify_url rejects_host url known_plps_from_csv =
        (if c = TARGET_SITE_URL_BASE \<or>
            (\<exists>p\<in>set KNOWN_IRRELEVANT_PATHS.
                p \<noteq> TARGET_SITE_URL_BASE \<and> prefix p c \<and> length p < length c) \<or>
            c \<in> set KNOWN_IRRELEVANT_PATHS
         then Irrelevant
         else if c \<in> set known_plps_from_csv \<or>
                 ((\<exists>p\<in>set KNOWN_PLP_PATHS. prefix p c) \<and>
                  \<not> (sublist ''/collections/'' c \<and> sublist ''/products/'' c))
         then Known_PLP
         else if (\<exists>p\<in>set KNOWN_PDP_PATHS. prefix p c) \<or> sublist ''/products/'' c
         then Known_PDP
         else Unknown))"
proof (intro conjI impI allI)
  assume "clean_url rejects_host url = None \<or> clean_url rejects_host url = Some []"
  then show "classify_url rejects_host url known_plps_from_csv = Unknown"
    by (auto simp add: classify_url_def)
next
  fix c
  assume c: "clean_url rejects_host url = Some c \<and> c \<noteq> []"
  have e1: "classify_url rejects_host url known_plps_from_csv =
        (if list_ex (\<lambda>p. prefix p c) KNOWN_IRRELEVANT_PATHS \<and>
             (c = ''https://www.'' @ TARGET_SITE @ ''/'' \<or>
              list_ex (\<lambda>p. prefix p c \<and> length c > length p)
                (filter (\<lambda>p. p \<noteq> ''https://www.'' @ TARGET_SITE @ ''/'') KNOWN_IRRELEVANT_PATHS) \<or>
              list_ex (\<lambda>p. c = p) KNOWN_IRRELEVANT_PATHS)
         then Irrelevant
         else if c \<in> set known_plps_from_csv then Known_PLP
         else if list_ex (\<lambda>p. prefix p c) KNOWN_PLP_PATHS \<and>
                 \<not> (sublist ''/collections/'' c \<and> sublist ''/products/'' c)
         then Known_PLP
         else if list_ex (\<lambda>p. prefix p c) KNOWN_PDP_PATHS \<or> sublist ''/products/'' c
         then Known_PDP
         else Unknown)"
    using c by (simp add: classify_url_def)
  have e2: "(if list_ex (\<lambda>p. prefix p c) KNOWN_IRRELEVANT_PATHS \<and>
             (c = ''https://www.'' @ TARGET_SITE @ ''/'' \<or>
              list_ex (\<lambda>p. prefix p c \<and> length c > length p)
                (filter (\<lambda>p. p \<noteq> ''https://www.'' @ TARGET_SITE @ ''/'') KNOWN_IRRELEVANT_PATHS) \<or>
              list_ex (\<lambda>p. c = p) KNOWN_IRRELEVANT_PATHS)
         then Irrelevant
         else if c \<in> set known_plps_from_csv then Known_PLP
         else if list_ex (\<lambda>p. prefix p c) KNOWN_PLP_PATHS \<and>
                 \<not> (sublist ''/collections/'' c \<and> sublist ''/products/'' c)
         then Known_PLP
         else if list_ex (\<lambda>p. prefix p c) KNOWN_PDP_PATHS \<or> sublist ''/products/'' c
         then Known_PDP
         else Unknown) =
        (if c = TARGET_SITE_URL_BASE \<or>
            (\<exists>p\<in>set KNOWN_IRRELEVANT_PATHS.
                p \<noteq> TARGET_SITE_URL_BASE \<and> prefix p c \<and> length p < length c) \<or>
            c \<in> set KNOWN_IRRELEVANT_PATHS
         then Irrelevant
         else if c \<in> set known_plps_from_csv \<or>
                 ((\<exists>p\<in>set KNOWN_PLP_PATHS. prefix p c) \<and>
                  \<not> (sublist ''/collections/'' c \<and> sublist ''/products/'' c))
         then Known_PLP
         else if (\<exists>p\<in>set KNOWN_PDP_PATHS. prefix p c) \<or> sublist ''/products/'' c
         then Known_PDP
         else Unknown)"
    unfolding irrelevant_test by (simp only: list_ex_iff if_same_or)
  show "classify_url rejects_host url known_plps_from_csv =
        (if c = TARGET_SITE_URL_BASE \<or>
            (\<exists>p\<in>set KNOWN_IRRELEVANT_PATHS.
                p \<noteq> TARGET_SITE_URL_BASE \<and> prefix p c \<and> length p < length c) \<or>
            c \<in> set KNOWN_IRRELEVANT_PATHS
         then Irrelevant
         else if c \<in> set known_plps_from_csv \<or>
                 ((\<exists>p\<in>set KNOWN_PLP_PATHS. prefix p c) \<and>
                  \<not> (sublist ''/collections/'' c \<and> sublist ''/products/'' c))
         then Known_PLP
         else if (\<exists>p\<in>set KNOWN_PDP_PATHS. prefix p c) \<or> sublist ''/products/'' c
         then Known_PDP
         else Unknown)"
    by (rule trans [OF e1 e2])
qed

theorem C4_classifier_precedence_witness:
  "classify_url no_host_rejected (PStr ''https://www.fatshackvintage.com.au/help/products/x?ref=1'')
     [''https://www.fatshackvintage.com.au/help/products/x''] = Irrelevant \<and>
   classify_url no_host_rejected
     (PStr ''https://www.fatshackvintage.com.au/collections/hats/products/red-hat'') [] = Known_PDP \<and>
   classify_url no_host_rejected (PStr ''https://[www.fatshackvintage.com.au/help/'') [] = Unknown"
proof -
  have a1: "clean_url no_host_rejected (PStr ''https://www.fatshackvintage.com.au/help/products/x?ref=1'') =
      Some ''https://www.fatshackvintage.com.au/help/products/x'' \<and>
      ''https://www.fatshackvintage.com.au/help/products/x'' \<noteq> []"
    by code_simp
  have a2: "(if ''https://www.fatshackvintage.com.au/help/products/x'' = TARGET_SITE_URL_BASE \<or>
            (\<exists>p\<in>set KNOWN_IRRELEVANT_PATHS.
                p \<noteq> TARGET_SITE_URL_BASE \<and> prefix p ''https://www.fatshackvintage.com.au/help/products/x'' \<and> length p < length ''https://www.fatshackvintage.com.au/help/products/x'') \<or>
            ''https://www.fatshackvintage.com.au/help/products/x'' \<in> set KNOWN_IRRELEVANT_PATHS
         then Irrelevant
         else if ''https://www.fatshackvintage.com.au/help/products/x'' \<in> set [''https://www.fatshackvintage.com.au/help/products/x''] \<or>
                 ((\<exists>p\<in>set KNOWN_PLP_PATHS. prefix p ''https://www.fatshackvintage.com.au/help/products/x'') \<and>
                  \<not> (sublist ''/collections/'' ''https://www.fatshackvintage.com.au/help/products/x'' \<and> sublist ''/products/'' ''https://www.fatshackvintage.com.au/help/products/x''))
         then Known_PLP
         else if (\<exists>p\<in>set KNOWN_PDP_PATHS. prefix p ''https://www.fatshackvintage.com.au/help/products/x'') \<or> sublist ''/products/'' ''https://www.fatshackvintage.com.au/help/products/x''
         then Known_PDP
         else Unknown) = Irrelevant"
    by code_simp
  have a: "classify_url no_host_rejected (PStr ''https://www.fatshackvintage.com.au/help/products/x?ref=1'')
     [''https://www.fatshackvintage.com.au/help/products/x''] = Irrelevant"
    by (rule trans [OF C4_classifier_precedence [where rejects_host = no_host_rejected
        and url = "PStr ''https://www.fatshackvintage.com.au/help/products/x?ref=1''"
        and known_plps_from_csv = "[''https://www.fatshackvintage.com.au/help/products/x'']", THEN conjunct2, rule_format, OF a1] a2])
  have b1: "clean_url no_host_rejected (PStr ''https://www.fatshackvintage.com.au/collections/hats/products/red-hat'') =
      Some ''https://www.fatshackvintage.com.au/collections/hats/products/red-hat'' \<and>
      ''https://www.fatshackvintage.com.au/collections/hats/products/red-hat'' \<noteq> []"
    by code_simp
  have b2: "(if ''https://www.fatshackvintage.com.au/collections/hats/products/red-hat'' = TARGET_SITE_URL_BASE \<or>
            (\<exists>p\<in>set KNOWN_IRRELEVANT_PATHS.
                p \<noteq> TARGET_SITE_URL_BASE \<and> prefix p ''https://www.fatshackvintage.com.au/collections/hats/products/red-hat'' \<and> length p < length ''https://www.fatshackvintage.com.au/collections/hats/products/red-hat'') \<or>
            ''https://www.fatshackvintage.com.au/collections/hats/products/red-hat'' \<in> set KNOWN_IRRELEVANT_PATHS
         then Irrelevant
         else if ''https://www.fatshackvintage.com.au/collections/hats/products/red-hat'' \<in> set [] \<or>
                 ((\<exists>p\<in>set KNOWN_PLP_PATHS. prefix p ''https://www.fatshackvintage.com.au/collections/hats/products/red-hat'') \<and>
                  \<not> (sublist ''/collections/'' ''https://www.fatshackvintage.com.au/collections/hats/products/red-hat'' \<and> sublist ''/products/'' ''https://www.fatshackvintage.com.au/collections/hats/products/red-hat''))
         then Known_PLP
         else if (\<exists>p\<in>set KNOWN_PDP_PATHS. prefix p ''https://www.fatshackvintage.com.au/collections/hats/products/red-hat'') \<or> sublist ''/products/'' ''https://www.fatshackvintage.com.au/collections/hats/products/red-hat''
         then Known_PDP
         else Unknown) = Known_PDP"
    by code_simp
  have b: "classify_url no_host_rejected (PStr ''https://www.fatshackvintage.com.au/collections/hats/products/red-hat'') [] = Known_PDP"
    by (rule trans [OF C4_classifier_precedence [where rejects_host = no_host_rejected
        and url = "PStr ''https://www.fatshackvintage.com.au/collections/hats/products/red-hat''"
        and known_plps_from_csv = "[]", THEN conjunct2, rule_format, OF b1] b2])
  have c1: "clean_url no_host_rejected (PStr ''https://[www.fatshackvintage.com.au/help/'') = None"
    by code_simp
  have c: "classify_url no_host_rejected (PStr ''https://[www.fatshackvintage.com.au/help/'') [] = Unknown"
    by (rule C4_classifier_precedence [where rejects_host = no_host_rejected
        and url = "PStr ''https://[www.fatshackvintage.com.au/help/''"
        and known_plps_from_csv = "[]", THEN conjunct1, rule_format, OF disjI1 [OF c1]])
  show ?thesis by (intro conjI a b c)
qed

subsection \<open>The four buckets\<close>

lemma all_buckets_append:
  "c \<notin> set (all_buckets cu) \<Longrightarrow> distinct (all_buckets cu) \<Longrightarrow>
   distinct (all_buckets (cu(t := cu t @ [c])))"
  by (cases t) (auto simp add: all_buckets_def)

lemma set_all_buckets_append:
  "set (all_buckets (cu(t := cu t @ [c]))) = insert c (set (all_buckets cu))"
  by (cases t) (auto simp add: all_buckets_def)

lemma initial_classification_skip:
  "clean_url rejects_host url = None \<or> clean_url rejects_host url = Some [] \<or>
     (\<exists>c. clean_url rejects_host url = Some c \<and> c \<in> set (all_buckets cu)) \<Longrightarrow>
   initial_classification rejects_host (url # urls) known cu = initial_classification rejects_host urls known cu"
  by (auto simp add: Let_def split: option.splits)

lemma initial_classification_place:
  "clean_url rejects_host url = Some c \<Longrightarrow> c \<noteq> [] \<Longrightarrow> c \<notin> set (all_buckets cu) \<Longrightarrow>
   initial_classification rejects_host (url # urls) known cu =
     initial_classification rejects_host urls known
       (cu(classify_url rejects_host (PStr c) known := cu (classify_url rejects_host (PStr c) known) @ [c]))"
  by (simp add: Let_def)

lemma initial_classification_distinct:
  "distinct (all_buckets cu) \<Longrightarrow> distinct (all_buckets (initial_classification rejects_host urls known cu))"
proof (induction urls arbitrary: cu)
  case Nil
  then show ?case by simp
next
  case (Cons url urls)
  show ?case
  proof (cases "\<exists>c. clean_url rejects_host url = Some c \<and> c \<noteq> [] \<and> c \<notin> set (all_buckets cu)")
    case True
    then obtain c where c: "clean_url rejects_host url = Some c" "c \<noteq> []" "c \<notin> set (all_buckets cu)"
      by blast
    have "distinct (all_buckets (cu(classify_url rejects_host (PStr c) known := cu (classify_url rejects_host (PStr c) known) @ [c])))"
      by (rule all_buckets_append [OF c(3) Cons.prems])
    from Cons.IH [OF this] show ?thesis
      by (simp only: initial_classification_place [OF c])
  next
    case False
    then have "clean_url rejects_host url = None \<or> clean_url rejects_host url = Some [] \<or>
     (\<exists>c. clean_url rejects_host url = Some c \<and> c \<in> set (all_buckets cu))"
      by (cases "clean_url rejects_host url") auto
    from initial_classification_skip [OF this] Cons.IH [OF Cons.prems] show ?thesis
      by (simp only:)
  qed
qed

lemma initial_classification_set:
  "set (all_buckets (initial_classification rejects_host urls known cu)) =
   set (all_buckets cu) \<union> {c. c \<noteq> [] \<and> (\<exists>u\<in>set urls. clean_url rejects_host u = Some c)}"
proof (induction urls arbitrary: cu)
  case Nil
  then show ?case by simp
next
  case (Cons url urls)
  show ?case
  proof (cases "\<exists>c. clean_url rejects_host url = Some c \<and> c \<noteq> [] \<and> c \<notin> set (all_buckets cu)")
    case True
    then obtain c where c: "clean_url rejects_host url = Some c" "c \<noteq> []" "c \<notin> set (all_buckets cu)"
      by blast
    have "set (all_buckets (initial_classification rejects_host (url # urls) known cu)) =
          insert c (set (all_buckets cu)) \<union> {c. c \<noteq> [] \<and> (\<exists>u\<in>set urls. clean_url rejects_host u = Some c)}"
      by (simp only: initial_classification_place [OF c] Cons.IH set_all_buckets_append)
    then show ?thesis using c by auto
  next
    case False
    then have sk: "clean_url rejects_host url = None \<or> clean_url rejects_host url = Some [] \<or>
     (\<exists>c. clean_url rejects_host url = Some c \<and> c \<in> set (all_buckets cu))"
      by (cases "clean_url rejects_host url") auto
    have "set (all_buckets (initial_classification rejects_host (url # urls) known cu)) =
          set (all_buckets cu) \<union> {c. c \<noteq> [] \<and> (\<exists>u\<in>set urls. clean_url rejects_host u = Some c)}"
      by (simp only: initial_classification_skip [OF sk] Cons.IH)
    then show ?thesis using sk by auto
  qed
qed

lemma bucket_append_typed:
  "(\<forall>t. \<forall>x\<in>set (cu t). f x = t) \<Longrightarrow>
   (\<forall>t. \<forall>x\<in>set ((cu(f c := cu (f c) @ [c])) t). f x = t)"
proof (intro allI ballI)
  fix t x
  assume a: "\<forall>t. \<forall>x\<in>set (cu t). f x = t" and x: "x \<in> set ((cu(f c := cu (f c) @ [c])) t)"
  show "f x = t"
  proof (cases "t = f c")
    case True
    have "(cu(f c := cu (f c) @ [c])) t = cu (f c) @ [c]"
      unfolding True by (rule fun_upd_same)
    with x have "x \<in> set (cu (f c)) \<or> x = c" by auto
    then show ?thesis
    proof
      assume "x \<in> set (cu (f c))"
      with a have "f x = f c" by blast
      then show ?thesis unfolding True .
    next
      assume "x = c"
      then show ?thesis unfolding True by (rule arg_cong)
    qed
  next
    case False
    have "(cu(f c := cu (f c) @ [c])) t = cu t"
      using False by (rule fun_upd_other)
    with x have "x \<in> set (cu t)" by (simp only:)
    with a show ?thesis by blast
  qed
qed

lemma initial_classification_typed:
  "(\<forall>t. \<forall>c\<in>set (cu t). classify_url rejects_host (PStr c) known = t) \<Longrightarrow>
   (\<forall>t. \<forall>c\<in>set (initial_classification rejects_host urls known cu t). classify_url rejects_host (PStr c) known = t)"
proof (induction urls arbitrary: cu)
  case Nil
  show ?case unfolding initial_classification.simps by (rule Nil)
next
  case (Cons url urls)
  show ?case
  proof (cases "\<exists>c. clean_url rejects_host url = Some c \<and> c \<noteq> [] \<and> c \<notin> set (all_buckets cu)")
    case True
    then obtain c where c: "clean_url rejects_host url = Some c" "c \<noteq> []" "c \<notin> set (all_buckets cu)"
      by blast
    have step: "\<forall>t. \<forall>x\<in>set ((cu(classify_url rejects_host (PStr c) known := cu (classify_url rejects_host (PStr c) known) @ [c])) t).
             classify_url rejects_host (PStr x) known = t"
      by (rule bucket_append_typed [where f = "\<lambda>x. classify_url rejects_host (PStr x) known", OF Cons.prems])
    show ?thesis
      unfolding initial_classification_place [OF c] by (rule Cons.IH [OF step])
  next
    case False
    then have sk: "clean_url rejects_host url = None \<or> clean_url rejects_host url = Some [] \<or>
     (\<exists>c. clean_url rejects_host url = Some c \<and> c \<in> set (all_buckets cu))"
      by (cases "clean_url rejects_host url") auto
    show ?thesis
      unfolding initial_classification_skip [OF sk] by (rule Cons.IH [OF Cons.prems])
  qed
qed

text \<open>
  Claim C8, as the code has it. The buckets hold normalised URLs: no URL occurs twice in
  a bucket or in two buckets, the URLs in the buckets are exactly the non-empty
  normalisations of the ranked URLs (so ranked URLs with the same normalisation are
  placed once, and a ranked URL that cannot be normalised is placed nowhere), and every
  URL lies in the bucket of its own classification.
\<close>

theorem C8_buckets_partition_cleaned_urls:
  "distinct (all_buckets (initial_classification rejects_host urls known_plps_list empty_buckets)) \<and>
   set (all_buckets (initial_classification rejects_host urls known_plps_list empty_buckets)) =
     {c. c \<noteq> [] \<and> (\<exists>u\<in>set urls. clean_url rejects_host u = Some c)} \<and>
   (\<forall>t. \<forall>c\<in>set (initial_classification rejects_host urls known_plps_list empty_buckets t).
      classify_url rejects_host (PStr c) known_plps_list = t)"
proof -
  have e: "all_buckets empty_buckets = []" by (simp add: all_buckets_def empty_buckets_def)
  have d: "distinct (all_buckets (initial_classification rejects_host urls known_plps_list empty_buckets))"
    by (rule initial_classification_distinct) (simp add: e)
  have s: "set (all_buckets (initial_classification rejects_host urls known_plps_list empty_buckets)) =
     {c. c \<noteq> [] \<and> (\<exists>u\<in>set urls. clean_url rejects_host u = Some c)}"
    by (simp add: initial_classification_set e)
  have t: "\<forall>t. \<forall>c\<in>set (initial_classification rejects_host urls known_plps_list empty_buckets t).
      classify_url rejects_host (PStr c) known_plps_list = t"
    by (rule initial_classification_typed) (simp add: empty_buckets_def)
  show ?thesis by (intro conjI d s t)
qed

theorem C8_buckets_partition_cleaned_urls_witness:
  "initial_classification no_host_rejected
     [PStr ''https://www.fatshackvintage.com.au/collections/hats?page=2'',
      PStr ''https://www.fatshackvintage.com.au/products/red-hat'',
      PStr ''https://www.fatshackvintage.com.au/collections/hats?page=3'']
     [] empty_buckets Known_PLP = [''https://www.fatshackvintage.com.au/collections/hats''] \<and>
   classify_url no_host_rejected (PStr ''https://www.fatshackvintage.com.au/collections/hats'') [] = Known_PLP \<and>
   distinct (all_buckets (initial_classification no_host_rejected
     [PStr ''https://www.fatshackvintage.com.au/collections/hats?page=2'',
      PStr ''https://www.fatshackvintage.com.au/products/red-hat'',
      PStr ''https://www.fatshackvintage.com.au/collections/hats?page=3'']
     [] empty_buckets))"
proof -
  have m: "initial_classification no_host_rejected
     [PStr ''https://www.fatshackvintage.com.au/collections/hats?page=2'',
      PStr ''https://www.fatshackvintage.com.au/products/red-hat'',
      PStr ''https://www.fatshackvintage.com.au/collections/hats?page=3'']
     [] empty_buckets Known_PLP = [''https://www.fatshackvintage.com.au/collections/hats'']"
    by code_simp
  from C8_buckets_partition_cleaned_urls
    [of no_host_rejected "[PStr ''https://www.fatshackvintage.com.au/collections/hats?page=2'',
      PStr ''https://www.fatshackvintage.com.au/products/red-hat'',
      PStr ''https://www.fatshackvintage.com.au/collections/hats?page=3'']" "[]"] m
  show ?thesis by simp
qed

text \<open>
  Claim C8 as stated fails: a ranked URL whose host has an unmatched bracket cannot be
  parsed, is skipped by the classification loop, and appears in no bucket.
\<close>

theorem C8_unparsable_url_in_no_bucket:
  "clean_url no_host_rejected (PStr ''https://[www.fatshackvintage.com.au/collections/hats'') = None \<and>
   all_buckets (initial_classification no_host_rejected
      [PStr ''https://[www.fatshackvintage.com.au/collections/hats''] [] empty_buckets) = []"
  by code_simp


subsection \<open>Early exit of the known-listing stage\<close>

lemma known_plp_step_calls:
  "calls (fst (known_plp_step w keyword url e)) = calls e @ [Assess_Category keyword url]"
  by (auto simp add: known_plp_step_def Let_def split: option.splits)

lemma known_plp_step_closely:
  "assess_category_page_relevance w (calls e) keyword url = Some r \<Longrightarrow>
   dict_get r ''Relevant'' = PStr ''Closely Related'' \<Longrightarrow>
   known_plp_step w keyword url e =
     (e\<lparr>calls := calls e @ [Assess_Category keyword url],
        known_plp_assessments := AList.update url r (known_plp_assessments e),
        found_closely_related_plp := True,
        best_plp_relevance := Some ''Closely Related''\<rparr>, True)"
  by (simp add: known_plp_step_def Let_def)

lemma assess_known_plps_append:
  "\<not> found_closely_related_plp e \<Longrightarrow>
   \<not> found_closely_related_plp (assess_known_plps w keyword pre e) \<Longrightarrow>
   assess_known_plps w keyword (pre @ rest) e = assess_known_plps w keyword rest (assess_known_plps w keyword pre e) \<and>
   calls (assess_known_plps w keyword pre e) = calls e @ map (Assess_Category keyword) pre"
proof (induction pre arbitrary: e)
  case Nil
  then show ?case by simp
next
  case (Cons url pre)
  obtain e' stop where st: "known_plp_step w keyword url e = (e', stop)"
    by (cases "known_plp_step w keyword url e")
  have ns: "\<not> stop"
  proof
    assume stop
    then have "found_closely_related_plp e'" using known_plp_step_stop [of w keyword url e] st by simp
    then show False using Cons.prems(2) st \<open>stop\<close> by simp
  qed
  have nf: "\<not> found_closely_related_plp e'"
    using known_plp_step_continue [of w keyword url e] st ns Cons.prems(1) by simp
  have c: "calls e' = calls e @ [Assess_Category keyword url]"
    using known_plp_step_calls [of w keyword url e] st by simp
  have nf2: "\<not> found_closely_related_plp (assess_known_plps w keyword pre e')"
    using Cons.prems(2) st ns by simp
  from Cons.IH [OF nf nf2] show ?case using st ns c by simp
qed

text \<open>
  Claim C5. Let the known-listing bucket be \<open>pre @ url # post\<close>, where the loop over
  \<open>pre\<close> finds no closely related page and the assessment of \<open>url\<close> then returns
  \<open>'Closely Related'\<close>. Then the calls made for the keyword are the fetch and the
  listing assessments of \<open>pre\<close> and of \<open>url\<close>, and nothing else: no URL of \<open>post\<close> is
  assessed, and no unknown URL and no known detail page either. The result appended
  has the decision \<open>No (Existing page sufficient)\<close> and empty assessments for the
  unknown URLs and the known detail pages.
\<close>

theorem C5_first_closely_related_stops:
  "get_organic_results w h keyword TARGET_SITE = Pair ref df \<Longrightarrow> df \<noteq> [] \<Longrightarrow>
   initial_classification (urllib_rejects_host w) (ranking_urls df) known_plps_list empty_buckets Known_PLP = pre @ url # post \<Longrightarrow>
   e1 = assess_known_plps w keyword pre (initial_evidence (h @ [Get_Organic_Results keyword TARGET_SITE])) \<Longrightarrow>
   \<not> found_closely_related_plp e1 \<Longrightarrow>
   assess_category_page_relevance w (calls e1) keyword url = Some r \<Longrightarrow>
   dict_get r ''Relevant'' = PStr ''Closely Related'' \<Longrightarrow>
   (\<exists>kr. process_keyword w known_plps_list keyword (results_list, h) =
           Inr (results_list @ [kr],
                h @ [Get_Organic_Results keyword TARGET_SITE] @ map (Assess_Category keyword) (pre @ [url])) \<and>
         Decision kr = ''No (Existing page sufficient)'' \<and>
         Known_PLP_Assessment kr = AList.update url r (known_plp_assessments e1) \<and>
         Unknown_URL_Assessment kr = [] \<and> Known_PDP_Assessment kr = [])"
proof -
  assume fetch: "get_organic_results w h keyword TARGET_SITE = Pair ref df" and ne: "df \<noteq> []"
    and bucket: "initial_classification (urllib_rejects_host w) (ranking_urls df) known_plps_list empty_buckets Known_PLP = pre @ url # post"
    and e1: "e1 = assess_known_plps w keyword pre (initial_evidence (h @ [Get_Organic_Results keyword TARGET_SITE]))"
    and nf: "\<not> found_closely_related_plp e1"
    and r: "assess_category_page_relevance w (calls e1) keyword url = Some r"
    and cr: "dict_get r ''Relevant'' = PStr ''Closely Related''"
  let ?e0 = "initial_evidence (h @ [Get_Organic_Results keyword TARGET_SITE])"
  let ?e3 = "e1\<lparr>calls := calls e1 @ [Assess_Category keyword url],
        known_plp_assessments := AList.update url r (known_plp_assessments e1),
        found_closely_related_plp := True,
        best_plp_relevance := Some ''Closely Related''\<rparr>"
  have nf0: "\<not> found_closely_related_plp ?e0" by (simp add: initial_evidence_def)
  have app: "assess_known_plps w keyword (pre @ url # post) ?e0 = assess_known_plps w keyword (url # post) e1"
    and c1: "calls e1 = (h @ [Get_Organic_Results keyword TARGET_SITE]) @ map (Assess_Category keyword) pre"
    using assess_known_plps_append [OF nf0, of w keyword pre "url # post"] nf e1
    by (simp_all add: initial_evidence_def)
  have loop: "assess_known_plps w keyword (pre @ url # post) ?e0 = ?e3"
    unfolding app using known_plp_step_closely [OF r cr] by simp
  have rs: "run_stages w known_plps_list keyword h =
     Decided \<lparr>Keyword = keyword, SERP_Results_Found = True,
        Initial_Classification = map (\<lambda>t. (t, initial_classification (urllib_rejects_host w) (ranking_urls df) known_plps_list empty_buckets t))
            [Known_PLP, Known_PDP, Irrelevant, Unknown],
        Known_PLP_Assessment = AList.update url r (known_plp_assessments e1),
        Known_PDP_Assessment = [], Unknown_URL_Assessment = [],
        Decision = ''No (Existing page sufficient)'',
        Justification = ''A 'Closely Related' Known PLP was found in SERP.'',
        SERP_Raw_HTML_URL = ref\<rparr>
       (calls e1 @ [Assess_Category keyword url])"
    unfolding run_stages_def using fetch ne bucket loop by (simp add: Let_def)
  show ?thesis
    unfolding process_keyword_def using rs c1 by simp
qed

theorem C5_first_closely_related_stops_witness:
  "\<exists>kr. process_keyword hats_world [] ''hats'' ([], []) =
         Inr ([kr],
              [Get_Organic_Results ''hats'' TARGET_SITE,
               Assess_Category ''hats'' ''https://www.fatshackvintage.com.au/collections/bags'',
               Assess_Category ''hats'' ''https://www.fatshackvintage.com.au/collections/hats'']) \<and>
        Decision kr = ''No (Existing page sufficient)'' \<and>
        Unknown_URL_Assessment kr = [] \<and> Known_PDP_Assessment kr = []"
proof -
  have h1: "get_organic_results hats_world [] ''hats'' TARGET_SITE =
      Pair PNone
        [(1, PStr ''https://www.fatshackvintage.com.au/collections/bags'', PNone),
         (2, PStr ''https://www.fatshackvintage.com.au/collections/hats'', PNone),
         (3, PStr ''https://www.fatshackvintage.com.au/collections/caps'', PNone),
         (4, PStr ''https://www.fatshackvintage.com.au/lookbook'', PNone),
         (5, PStr ''https://www.fatshackvintage.com.au/products/red-hat'', PNone)]"
    by code_simp
  have h2: "[(1::nat, PStr ''https://www.fatshackvintage.com.au/collections/bags'', PNone),
         (2, PStr ''https://www.fatshackvintage.com.au/collections/hats'', PNone),
         (3, PStr ''https://www.fatshackvintage.com.au/collections/caps'', PNone),
         (4, PStr ''https://www.fatshackvintage.com.au/lookbook'', PNone),
         (5, PStr ''https://www.fatshackvintage.com.au/products/red-hat'', PNone)] \<noteq> []"
    by simp
  have h3: "initial_classification (urllib_rejects_host hats_world) (ranking_urls
        [(1, PStr ''https://www.fatshackvintage.com.au/collections/bags'', PNone),
         (2, PStr ''https://www.fatshackvintage.com.au/collections/hats'', PNone),
         (3, PStr ''https://www.fatshackvintage.com.au/collections/caps'', PNone),
         (4, PStr ''https://www.fatshackvintage.com.au/lookbook'', PNone),
         (5, PStr ''https://www.fatshackvintage.com.au/products/red-hat'', PNone)]) [] empty_buckets Known_PLP =
      [''https://www.fatshackvintage.com.au/collections/bags''] @
      ''https://www.fatshackvintage.com.au/collections/hats'' #
      [''https://www.fatshackvintage.com.au/collections/caps'']"
    by code_simp
  have h5: "\<not> found_closely_related_plp
      (assess_known_plps hats_world ''hats'' [''https://www.fatshackvintage.com.au/collections/bags'']
         (initial_evidence ([] @ [Get_Organic_Results ''hats'' TARGET_SITE])))"
    by code_simp
  have h6: "assess_category_page_relevance hats_world
      (calls (assess_known_plps hats_world ''hats'' [''https://www.fatshackvintage.com.au/collections/bags'']
         (initial_evidence ([] @ [Get_Organic_Results ''hats'' TARGET_SITE]))))
      ''hats'' ''https://www.fatshackvintage.com.au/collections/hats'' =
      Some [(''Relevant'', PStr ''Closely Related''), (''Analysis'', PStr ''hats only'')]"
    by code_simp
  have h7: "dict_get [(''Relevant'', PStr ''Closely Related''), (''Analysis'', PStr ''hats only'')] ''Relevant'' =
      PStr ''Closely Related''"
    by code_simp
  from C5_first_closely_related_stops [OF h1 h2 h3 refl h5 h6 h7, of "[]"]
  show ?thesis by auto
qed

subsection \<open>Failure of every relevance call\<close>











subsection \<open>One result per keyword\<close>

lemma known_plp_step_range:
  "best_plp_relevance e \<in> {None, Some ''Unrelated'', Some ''Loosely Related'', Some ''Closely Related''} \<Longrightarrow>
   best_plp_relevance (fst (known_plp_step w keyword url e)) \<in>
     {None, Some ''Unrelated'', Some ''Loosely Related'', Some ''Closely Related''}"
  by (auto simp add: known_plp_step_def Let_def split: option.splits)

lemma unknown_url_step_range:
  "best_plp_relevance e \<in> {None, Some ''Unrelated'', Some ''Loosely Related'', Some ''Closely Related''} \<Longrightarrow>
   best_plp_relevance (fst (unknown_url_step w keyword url e)) \<in>
     {None, Some ''Unrelated'', Some ''Loosely Related'', Some ''Closely Related''}"
  by (auto simp add: unknown_url_step_def Let_def split: option.splits)

lemma assess_known_plps_range:
  "best_plp_relevance e \<in> {None, Some ''Unrelated'', Some ''Loosely Related'', Some ''Closely Related''} \<Longrightarrow>
   best_plp_relevance (assess_known_plps w keyword urls e) \<in>
     {None, Some ''Unrelated'', Some ''Loosely Related'', Some ''Closely Related''}"
proof (induction urls arbitrary: e)
  case Nil
  then show ?case by simp
next
  case (Cons url urls)
  obtain e' stop where st: "known_plp_step w keyword url e = (e', stop)"
    by (cases "known_plp_step w keyword url e")
  have "best_plp_relevance e' \<in> {None, Some ''Unrelated'', Some ''Loosely Related'', Some ''Closely Related''}"
    using known_plp_step_range [OF Cons.prems, of w keyword url] st by simp
  then show ?case using st Cons.IH [of e'] by simp
qed

lemma assess_unknown_urls_range:
  "best_plp_relevance e \<in> {None, Some ''Unrelated'', Some ''Loosely Related'', Some ''Closely Related''} \<Longrightarrow>
   best_plp_relevance (assess_unknown_urls w keyword urls e) \<in>
     {None, Some ''Unrelated'', Some ''Loosely Related'', Some ''Closely Related''}"
proof (induction urls arbitrary: e)
  case Nil
  then show ?case by simp
next
  case (Cons url urls)
  obtain e' stop where st: "unknown_url_step w keyword url e = (e', stop)"
    by (cases "unknown_url_step w keyword url e")
  have "best_plp_relevance e' \<in> {None, Some ''Unrelated'', Some ''Loosely Related'', Some ''Closely Related''}"
    using unknown_url_step_range [OF Cons.prems, of w keyword url] st by simp
  then show ?case using st Cons.IH [of e'] by simp
qed

lemma final_decision_no_error:
  "best \<in> {None, Some ''Unrelated'', Some ''Loosely Related''} \<Longrightarrow>
   fst (final_decision best found_pdp) \<in>
     {''Yes (Create *specific* category)'', ''No (Loose PLP is best for now)'',
      ''Yes (Create *new* category)'', ''No (No relevant products/pages)''} \<and>
   snd (final_decision best found_pdp) \<noteq> []"
  by (auto simp add: final_decision_def)

lemma process_keyword_fetched:
  assumes fetch: "get_organic_results w h keyword TARGET_SITE = Pair ref df"
  shows "\<exists>kr h'. process_keyword w known_plps_list keyword (results_list, h) = Inr (results_list @ [kr], h') \<and>
           Keyword kr = keyword \<and>
           Decision kr \<in> {''No (Irrelevant)'', ''No (Existing page sufficient)'',
              ''Yes (Create *specific* category)'', ''No (Loose PLP is best for now)'',
              ''Yes (Create *new* category)'', ''No (No relevant products/pages)''} \<and>
           Justification kr \<noteq> []"
proof (cases "df = []")
  case True
  then show ?thesis
    unfolding process_keyword_def run_stages_def using fetch by (simp add: Let_def)
next
  case ne: False
  define cu where "cu = initial_classification (urllib_rejects_host w) (ranking_urls df) known_plps_list empty_buckets"
  let ?e0 = "initial_evidence (h @ [Get_Organic_Results keyword TARGET_SITE])"
  define e3 where "e3 = assess_known_plps w keyword (cu Known_PLP) ?e0"
  define e4 where "e4 = assess_unknown_urls w keyword (cu Unknown) e3"
  define e5 where "e5 = assess_known_pdps w keyword (cu Known_PDP) e4"
  have init: "\<not> found_closely_related_plp ?e0" "best_plp_relevance ?e0 \<noteq> Some ''Closely Related''"
    "best_plp_relevance ?e0 \<in> {None, Some ''Unrelated'', Some ''Loosely Related'', Some ''Closely Related''}"
    by (simp_all add: initial_evidence_def)
  have c3: "found_closely_related_plp e3 = (best_plp_relevance e3 = Some ''Closely Related'')"
    unfolding e3_def by (rule assess_known_plps_flag [OF init(1,2)])
  have r3: "best_plp_relevance e3 \<in> {None, Some ''Unrelated'', Some ''Loosely Related'', Some ''Closely Related''}"
    unfolding e3_def by (rule assess_known_plps_range [OF init(3)])
  have c4: "found_closely_related_plp e4 = (best_plp_relevance e4 = Some ''Closely Related'')"
    unfolding e4_def by (rule assess_unknown_urls_flag [OF c3])
  have r4: "best_plp_relevance e4 \<in> {None, Some ''Unrelated'', Some ''Loosely Related'', Some ''Closely Related''}"
    unfolding e4_def by (rule assess_unknown_urls_range [OF r3])
  have l5: "found_closely_related_plp e5 = found_closely_related_plp e4"
    "best_plp_relevance e5 = best_plp_relevance e4"
    unfolding e5_def by (simp_all add: assess_known_pdps_listing)
  have e3_empty: "cu Known_PLP = [] \<Longrightarrow> \<not> found_closely_related_plp e3"
    by (simp add: e3_def initial_evidence_def)
  have e4_empty: "cu Unknown = [] \<Longrightarrow> e4 = e3"
    by (simp add: e4_def)
  show ?thesis
  proof (cases "found_closely_related_plp e3")
    case True
    then have "cu Known_PLP \<noteq> []" using e3_empty by blast
    then have "\<exists>kr. run_stages w known_plps_list keyword h = Decided kr (calls e3) \<and> Keyword kr = keyword \<and>
        Decision kr = ''No (Existing page sufficient)'' \<and> Justification kr \<noteq> []"
      unfolding run_stages_def using fetch ne True
      by (auto simp add: Let_def cu_def [symmetric] e3_def)
    then show ?thesis unfolding process_keyword_def by auto
  next
    case nf3: False
    show ?thesis
    proof (cases "found_closely_related_plp e4")
      case True
      then have "cu Unknown \<noteq> []" using e4_empty nf3 by auto
      then have "\<exists>kr. run_stages w known_plps_list keyword h = Decided kr (calls e4) \<and> Keyword kr = keyword \<and>
          Decision kr = ''No (Existing page sufficient)'' \<and> Justification kr \<noteq> []"
        unfolding run_stages_def using fetch ne True nf3
        by (auto simp add: Let_def cu_def [symmetric] e3_def e4_def)
      then show ?thesis unfolding process_keyword_def by auto
    next
      case nf4: False
      have "\<exists>kr. run_stages w known_plps_list keyword h = Synthesizing kr e5 \<and> Keyword kr = keyword"
        unfolding run_stages_def using fetch ne nf3 nf4
        by (auto simp add: Let_def cu_def [symmetric] e3_def e4_def e5_def)
      then obtain kr where kr: "run_stages w known_plps_list keyword h = Synthesizing kr e5"
        and kw: "Keyword kr = keyword" by blast
      have "best_plp_relevance e5 \<in> {None, Some ''Unrelated'', Some ''Loosely Related''}"
        using l5 c4 r4 nf4 by auto
      from final_decision_no_error [OF this, of "found_related_pdp e5"] kr kw
      show ?thesis unfolding process_keyword_def by simp
    qed
  qed
qed

lemma keyword_loop_fetched:
  assumes fetch: "\<forall>h k. \<exists>ref df. get_organic_results w h k TARGET_SITE = Pair ref df"
  shows "\<exists>new h'. keyword_loop w known_plps_list kws (results_list, h) = Inr (results_list @ new, h') \<and>
           map Keyword new = kws \<and>
           (\<forall>r\<in>set new.
              Decision r \<in> {''No (Irrelevant)'', ''No (Existing page sufficient)'',
                ''Yes (Create *specific* category)'', ''No (Loose PLP is best for now)'',
                ''Yes (Create *new* category)'', ''No (No relevant products/pages)''} \<and>
              Justification r \<noteq> [])"
proof (induction kws arbitrary: results_list h)
  case Nil
  show ?case by simp
next
  case (Cons keyword kws)
  obtain ref df where f: "get_organic_results w h keyword TARGET_SITE = Pair ref df"
    using fetch by blast
  from process_keyword_fetched [OF f, of known_plps_list results_list]
  obtain kr h1 where pk: "process_keyword w known_plps_list keyword (results_list, h) = Inr (results_list @ [kr], h1)"
    and kw: "Keyword kr = keyword"
    and dec: "Decision kr \<in> {''No (Irrelevant)'', ''No (Existing page sufficient)'',
                ''Yes (Create *specific* category)'', ''No (Loose PLP is best for now)'',
                ''Yes (Create *new* category)'', ''No (No relevant products/pages)''}"
    and jus: "Justification kr \<noteq> []"
    by blast
  from Cons.IH [of "results_list @ [kr]" h1]
  obtain new h' where kl: "keyword_loop w known_plps_list kws (results_list @ [kr], h1) =
        Inr ((results_list @ [kr]) @ new, h')"
    and kws: "map Keyword new = kws"
    and all: "\<forall>r\<in>set new.
              Decision r \<in> {''No (Irrelevant)'', ''No (Existing page sufficient)'',
                ''Yes (Create *specific* category)'', ''No (Loose PLP is best for now)'',
                ''Yes (Create *new* category)'', ''No (No relevant products/pages)''} \<and>
              Justification r \<noteq> []"
    by blast
  have 1: "keyword_loop w known_plps_list (keyword # kws) (results_list, h) =
        Inr (results_list @ (kr # new), h')"
    using pk kl by simp
  have 2: "map Keyword (kr # new) = keyword # kws" using kw kws by simp
  have 3: "\<forall>r\<in>set (kr # new).
              Decision r \<in> {''No (Irrelevant)'', ''No (Existing page sufficient)'',
                ''Yes (Create *specific* category)'', ''No (Loose PLP is best for now)'',
                ''Yes (Create *new* category)'', ''No (No relevant products/pages)''} \<and>
              Justification r \<noteq> []"
    using dec jus all by (simp only: set_simps ball_simps) blast
  show ?case
    by (rule exI [of _ "kr # new"], rule exI [of _ h']) (intro conjI 1 2 3)
qed

text \<open>When the search key is set and no search request raises, \<open>analyze_keywords\<close>
  returns one result per keyword, in the order of the keywords, each with a non-empty
  justification and one of the six decisions other than \<open>Error\<close>, whatever the
  relevance provider does.\<close>

lemma analyze_keywords_all_fetched:
  "\<not> key_missing (SERPAPI_API_KEY w) \<Longrightarrow>
   \<forall>h k s. serpapi_search w h k s \<noteq> Request_Exception \<and> serpapi_search w h k s \<noteq> Other_Exception \<Longrightarrow>
   (\<exists>rs h'. analyze_keywords w keywords known_plps_list = Inr (rs, h') \<and>
      map Keyword rs = keywords \<and>
      (\<forall>r\<in>set rs.
         Decision r \<in> {''No (Irrelevant)'', ''No (Existing page sufficient)'',
           ''Yes (Create *specific* category)'', ''No (Loose PLP is best for now)'',
           ''Yes (Create *new* category)'', ''No (No relevant products/pages)''} \<and>
         Justification r \<noteq> []))"
proof -
  assume key: "\<not> key_missing (SERPAPI_API_KEY w)"
    and ok: "\<forall>h k s. serpapi_search w h k s \<noteq> Request_Exception \<and> serpapi_search w h k s \<noteq> Other_Exception"
  have "\<exists>ref df. get_organic_results w h k TARGET_SITE = Pair ref df" for h k
    using key ok by (cases "serpapi_search w h k TARGET_SITE") (auto simp add: get_organic_results_def)
  then have "\<forall>h k. \<exists>ref df. get_organic_results w h k TARGET_SITE = Pair ref df" by blast
  from keyword_loop_fetched [OF this, of known_plps_list "keywords" "[]" "[]"]
  show ?thesis unfolding analyze_keywords_def by simp
qed

text \<open>
  Claim C2. Exactly one result per keyword is what the loop is written to produce, and
  what it produces as long as every fetch returns a pair. It fails where the fetch
  fails: the triple returned on failure makes the unpacking of line 166 raise, so a
  keyword whose search fails gets no result at all, and the results of the keywords
  before it are lost with it, since \<open>analyze_keywords\<close> raises instead of returning the
  table. In the catalogue, "hair powder" alone yields its one result; followed by
  "retro lamps", whose search fails, the run yields none.
\<close>

theorem C2_search_failure_yields_no_result:
  "analyze_keywords search_down_world [''vintage hats''] [] = Inl ValueError \<and>
   (case analyze_keywords catalogue_world [''hair powder''] [] of
      Inr (rs, h) \<Rightarrow> map Decision rs
    | Inl err \<Rightarrow> []) = [''Yes (Create *specific* category)''] \<and>
   analyze_keywords catalogue_world [''hair powder'', ''retro lamps''] [] = Inl ValueError"
  by code_simp

end
